theory Spec2Isabelle
  imports Complex_Main "HOL-Library.Sublist" "HOL-Library.AList"
begin

section \<open>MiniLedger: merchant balances and idempotent transfers\<close>

text \<open>
  The development embeds the ledger core of the repository: the entities of
  \<^verbatim>\<open>domain/entities.py\<close>, the fee calculator of \<^verbatim>\<open>domain/services.py\<close>, the
  repositories of \<^verbatim>\<open>infrastructure/repositories.py\<close>, the use cases of
  \<^verbatim>\<open>application/use_cases.py\<close>, the transfer route of \<^verbatim>\<open>api/routes.py\<close> and the
  session handling of \<^verbatim>\<open>infrastructure/database.py\<close>.

  Conventions of the embedding:
  \<^item> A Python exception is a value of type \<open>error\<close>; a function that can raise returns
    \<open>error + 'a\<close>, and one that also writes to the session returns the session's store
    next to it, so that what was flushed before a raise stays visible until the
    rollback of \<^verbatim>\<open>get_db\<close>.
  \<^item> \<^verbatim>\<open>datetime.utcnow()\<close> is an input of the call (\<open>now\<close>); the time read back from
    a row is the time that was written to it.
  \<^item> The four tables are association lists in insertion order; their unique indexes
    make them finite maps, read with \<open>map_of\<close>.
  \<^item> The engine is PostgreSQL, the one of \<^verbatim>\<open>config.py\<close>: a \<^verbatim>\<open>Numeric(20, 8)\<close> column
    rounds what is written to it to 8 fractional digits, and every repository method
    that writes builds its result from the row it reads back.
  \<^item> Calls are sequential: one session at a time. Row locks and concurrent
    transactions are outside the embedding.
\<close>

subsection \<open>Exceptions\<close>

datatype error =
    ValueError string
  | MerchantNotFoundError string
  | InsufficientFundsError string
  | InvalidTransferError string
  | InvalidOperation
  | DivisionByZero
  | IntegrityError
  | DataError
  | ValidationError
  | HTTPException nat string

subsection \<open>The decimal type of the Python runtime\<close>

text \<open>
  \<^verbatim>\<open>decimal.Decimal\<close> under the default context, which the repository never changes:
  28 significant digits, rounding \<^verbatim>\<open>ROUND_HALF_EVEN\<close>. A finite decimal is a signed
  coefficient and an exponent; its value is \<open>coefficient * 10 ^ exponent\<close>. Every
  arithmetic operation computes the exact result and then rounds it to the context
  precision (\<open>dec_fix\<close>); \<^verbatim>\<open>quantize\<close> refuses a result of more than 28 digits.
  Not modelled: NaN, the infinities, the sign of zero, and the exponent limits
  \<^verbatim>\<open>Emax\<close>/\<^verbatim>\<open>Emin\<close> (\<open>\<plusminus>999999\<close>) of the context.
\<close>

datatype decimal = Decimal (coefficient: int) (exponent: int)

definition prec :: nat where
  "prec = 28"

text \<open>\<^verbatim>\<open>len(str(n))\<close> for a natural number.\<close>

fun ndigits :: "nat \<Rightarrow> nat" where
  "ndigits n = (if n < 10 then 1 else Suc (ndigits (n div 10)))"

declare ndigits.simps [simp del]

text \<open>The magnitude \<open>m\<close> with the sign of \<open>c\<close>.\<close>

definition with_sign :: "int \<Rightarrow> nat \<Rightarrow> int" where
  "with_sign c m = (if c < 0 then - int m else int m)"

text \<open>
  Dropping the \<open>k\<close> low digits of a coefficient under \<^verbatim>\<open>ROUND_HALF_EVEN\<close>: up when the
  dropped part is more than half a unit, or exactly half with an odd digit before it.
\<close>

definition round_half_even_drop :: "nat \<Rightarrow> nat \<Rightarrow> nat" where
  "round_half_even_drop m k =
     (let q = m div 10 ^ k; r = m mod 10 ^ k
      in if 10 ^ k < 2 * r \<or> (2 * r = 10 ^ k \<and> odd q) then q + 1 else q)"

text \<open>
  \<^verbatim>\<open>Decimal._fix\<close>: a coefficient of more than \<open>prec\<close> digits is rounded to \<open>prec\<close>
  digits; when the rounding carries into one more digit, the last digit is dropped.
\<close>

definition dec_fix :: "decimal \<Rightarrow> decimal" where
  "dec_fix d =
     (let m = nat \<bar>coefficient d\<bar>; n = ndigits m
      in if n \<le> prec then d
         else let k = n - prec; q = round_half_even_drop m k
              in if prec < ndigits q
                 then Decimal (with_sign (coefficient d) (q div 10)) (exponent d + int k + 1)
                 else Decimal (with_sign (coefficient d) q) (exponent d + int k))"

definition dec_mul :: "decimal \<Rightarrow> decimal \<Rightarrow> decimal" where
  "dec_mul a b = dec_fix (Decimal (coefficient a * coefficient b) (exponent a + exponent b))"

definition dec_add :: "decimal \<Rightarrow> decimal \<Rightarrow> decimal" where
  "dec_add a b =
     (let e = min (exponent a) (exponent b)
      in dec_fix (Decimal (coefficient a * 10 ^ nat (exponent a - e)
                           + coefficient b * 10 ^ nat (exponent b - e)) e))"

definition copy_negate :: "decimal \<Rightarrow> decimal" where
  "copy_negate d = Decimal (- coefficient d) (exponent d)"

definition dec_sub :: "decimal \<Rightarrow> decimal \<Rightarrow> decimal" where
  "dec_sub a b = dec_add a (copy_negate b)"

text \<open>
  The loop of \<^verbatim>\<open>__truediv__\<close> that brings an exact quotient as close to the ideal
  exponent as its trailing zeros allow.
\<close>

function strip_zeros :: "nat \<Rightarrow> int \<Rightarrow> int \<Rightarrow> nat \<times> int" where
  "strip_zeros coeff e ideal =
     (if e < ideal \<and> coeff mod 10 = 0 then strip_zeros (coeff div 10) (e + 1) ideal
      else (coeff, e))"
  by pat_completeness auto
termination
  by (relation "measure (\<lambda>(coeff, e, ideal). nat (ideal - e))") auto

declare strip_zeros.simps [simp del]

text \<open>
  \<^verbatim>\<open>Decimal.__truediv__\<close>: the dividend is shifted so that the integer quotient has
  \<open>prec + 1\<close> digits or more; an inexact quotient gets a sticky last digit, so that the
  rounding of \<open>dec_fix\<close> is the rounding of the exact quotient.
\<close>

definition dec_div :: "decimal \<Rightarrow> decimal \<Rightarrow> error + decimal" where
  "dec_div a b =
     (if coefficient b = 0
      then (if coefficient a = 0 then Inl InvalidOperation else Inl DivisionByZero)
      else if coefficient a = 0 then Inr (dec_fix (Decimal 0 (exponent a - exponent b)))
      else
        let m1 = nat \<bar>coefficient a\<bar>; m2 = nat \<bar>coefficient b\<bar>;
            shift = int (ndigits m2) - int (ndigits m1) + int prec + 1;
            e = exponent a - exponent b - shift;
            n1 = (if 0 \<le> shift then m1 * 10 ^ nat shift else m1);
            n2 = (if 0 \<le> shift then m2 else m2 * 10 ^ nat (- shift));
            coeff = n1 div n2; remainder = n1 mod n2;
            (coeff', e') =
              (if remainder \<noteq> 0 then (if coeff mod 5 = 0 then coeff + 1 else coeff, e)
               else strip_zeros coeff e (exponent a - exponent b))
        in Inr (dec_fix (Decimal (with_sign (coefficient a * coefficient b) coeff') e')))"

text \<open>\<^verbatim>\<open>Decimal._rescale\<close> to the exponent \<open>e\<close>, rounding half-even.\<close>

definition rescale :: "decimal \<Rightarrow> int \<Rightarrow> decimal" where
  "rescale d e =
     (if e \<le> exponent d then Decimal (coefficient d * 10 ^ nat (exponent d - e)) e
      else Decimal (with_sign (coefficient d)
                      (round_half_even_drop (nat \<bar>coefficient d\<bar>) (nat (e - exponent d)))) e)"

definition adjusted :: "decimal \<Rightarrow> int" where
  "adjusted d = exponent d + int (ndigits (nat \<bar>coefficient d\<bar>)) - 1"

text \<open>
  \<^verbatim>\<open>Decimal.quantize\<close>: the value at the exponent of \<open>q\<close>;
  \<^verbatim>\<open>InvalidOperation\<close> when the result would have more than \<open>prec\<close> digits.
\<close>

definition quantize :: "decimal \<Rightarrow> decimal \<Rightarrow> error + decimal" where
  "quantize d q =
     (let e = exponent q
      in if coefficient d = 0 then Inr (dec_fix (Decimal 0 e))
         else if int prec < adjusted d - e + 1 then Inl InvalidOperation
         else let ans = rescale d e
              in if prec < ndigits (nat \<bar>coefficient ans\<bar>) then Inl InvalidOperation
                 else Inr (dec_fix ans))"

text \<open>Comparisons with the integer zero, the only comparisons of the repository.\<close>

definition dec_lt0 :: "decimal \<Rightarrow> bool" where
  "dec_lt0 d = (coefficient d < 0)"

definition dec_le0 :: "decimal \<Rightarrow> bool" where
  "dec_le0 d = (coefficient d \<le> 0)"

definition dec_gt0 :: "decimal \<Rightarrow> bool" where
  "dec_gt0 d = (0 < coefficient d)"

text \<open>\<^verbatim>\<open>str\<close> of a natural number and of a decimal (\<^verbatim>\<open>Decimal.__str__\<close>).\<close>

definition digit_char :: "nat \<Rightarrow> char" where
  "digit_char n = ''0123456789'' ! n"

fun str_nat :: "nat \<Rightarrow> string" where
  "str_nat n = (if n < 10 then [digit_char n] else str_nat (n div 10) @ [digit_char (n mod 10)])"

declare str_nat.simps [simp del]

definition str_int :: "int \<Rightarrow> string" where
  "str_int i = (if i < 0 then ''-'' @ str_nat (nat (- i)) else str_nat (nat i))"

definition str_decimal :: "decimal \<Rightarrow> string" where
  "str_decimal d =
     (let sign = (if coefficient d < 0 then ''-'' else '''');
          digits = str_nat (nat \<bar>coefficient d\<bar>);
          leftdigits = exponent d + int (length digits);
          dotplace = (if exponent d \<le> 0 \<and> - 6 < leftdigits then leftdigits else 1);
          intpart =
            (if dotplace \<le> 0 then ''0''
             else if int (length digits) \<le> dotplace
               then digits @ replicate (nat (dotplace - int (length digits))) (CHR ''0'')
             else take (nat dotplace) digits);
          fracpart =
            (if dotplace \<le> 0 then ''.'' @ replicate (nat (- dotplace)) (CHR ''0'') @ digits
             else if int (length digits) \<le> dotplace then ''''
             else ''.'' @ drop (nat dotplace) digits);
          expo =
            (if leftdigits = dotplace then ''''
             else ''E'' @ (if 0 \<le> leftdigits - dotplace then ''+'' else '''')
                  @ str_int (leftdigits - dotplace))
      in sign @ intpart @ fracpart @ expo)"


subsection \<open>Strings\<close>

text \<open>
  A string is a list of code points below 256, which is what a header holds (it is
  decoded as Latin-1); text with code points above 255 is outside the embedding.
  \<^verbatim>\<open>str.lower()\<close> maps the letters \<^verbatim>\<open>A\<close> to \<^verbatim>\<open>Z\<close> and the capital letters of
  Latin-1 (U+00C0 to U+00DE without the multiplication sign U+00D7) 32 code points up.
  \<^verbatim>\<open>str.strip()\<close> removes the white space of \<^verbatim>\<open>str.isspace\<close> at both ends: the
  code points 9 to 13, 28 to 32, U+0085 and U+00A0. \<^verbatim>\<open>x in s\<close> on strings is
  \<open>sublist x s\<close>.
\<close>

definition lower_char :: "char \<Rightarrow> char" where
  "lower_char c =
     (case map_of (zip ''ABCDEFGHIJKLMNOPQRSTUVWXYZ'' ''abcdefghijklmnopqrstuvwxyz'') c of
        Some l \<Rightarrow> l
      | None \<Rightarrow>
          (let n = of_char c :: nat
           in if (192 \<le> n \<and> n \<le> 214) \<or> (216 \<le> n \<and> n \<le> 222) then char_of (n + 32)
              else c))"

definition lower :: "string \<Rightarrow> string" where
  "lower s = map lower_char s"

definition is_space :: "char \<Rightarrow> bool" where
  "is_space c = (of_char c \<in> {9, 10, 11, 12, 13, 28, 29, 30, 31, 32, 133, 160 :: nat})"

definition strip :: "string \<Rightarrow> string" where
  "strip s = rev (dropWhile is_space (rev (dropWhile is_space s)))"

subsection \<open>Entities (\<^verbatim>\<open>domain/entities.py\<close>)\<close>

type_synonym datetime = nat

record merchant =
  m_name :: string
  m_created_at :: datetime

record balance =
  b_merchant_name :: string
  b_currency :: string
  b_amount :: decimal

record transfer =
  t_id :: "int option"
  t_from_merchant :: string
  t_to_merchant :: string
  t_currency :: string
  t_amount :: decimal
  t_fee :: decimal
  t_idempotency_key :: string
  t_created_at :: datetime

text \<open>The constructors run \<^verbatim>\<open>__post_init__\<close>, in the order of its checks.\<close>

definition Merchant :: "string \<Rightarrow> datetime \<Rightarrow> error + merchant" where
  "Merchant nm created =
     (if nm = [] then Inl (ValueError ''Merchant name cannot be empty'')
      else Inr \<lparr>m_name = nm, m_created_at = created\<rparr>)"

definition Balance :: "string \<Rightarrow> string \<Rightarrow> decimal \<Rightarrow> error + balance" where
  "Balance nm cur amt =
     (if dec_lt0 amt then Inl (ValueError ''Balance cannot be negative'')
      else if cur = [] then Inl (ValueError ''Currency cannot be empty'')
      else Inr \<lparr>b_merchant_name = nm, b_currency = cur, b_amount = amt\<rparr>)"

definition Transfer ::
  "int option \<Rightarrow> string \<Rightarrow> string \<Rightarrow> string \<Rightarrow> decimal \<Rightarrow> decimal \<Rightarrow> string \<Rightarrow> datetime
   \<Rightarrow> error + transfer" where
  "Transfer i frm to cur amt fee key created =
     (if dec_le0 amt then Inl (ValueError ''Transfer amount must be positive'')
      else if dec_lt0 fee then Inl (ValueError ''Transfer fee cannot be negative'')
      else if key = [] then Inl (ValueError ''Idempotency key is required'')
      else if frm = to then Inl (ValueError ''Cannot transfer to the same merchant'')
      else Inr \<lparr>t_id = i, t_from_merchant = frm, t_to_merchant = to, t_currency = cur,
                t_amount = amt, t_fee = fee, t_idempotency_key = key, t_created_at = created\<rparr>)"

subsection \<open>Fee calculator (\<^verbatim>\<open>domain/services.py\<close>)\<close>

text \<open>
  \<open>fee_percent\<close> is the decimal held by the calculator,
  \<^verbatim>\<open>Decimal(str(settings.transfer_fee_percent))\<close>; the constructor refuses a negative
  percentage. The conversion from the float of the settings is outside the embedding.
\<close>

definition PercentageFeeCalculator :: "decimal \<Rightarrow> error + decimal" where
  "PercentageFeeCalculator fee_percent =
     (if dec_lt0 fee_percent then Inl (ValueError ''Fee percentage cannot be negative'')
      else Inr fee_percent)"

definition calculate_fee :: "decimal \<Rightarrow> decimal \<Rightarrow> error + decimal" where
  "calculate_fee fee_percent amount =
     (if dec_le0 amount then Inl (ValueError ''Amount must be positive'')
      else case dec_div (dec_mul amount fee_percent) (Decimal 100 0) of
             Inl e \<Rightarrow> Inl e
           | Inr q \<Rightarrow> quantize q (Decimal 1 (- 8)))"

subsection \<open>The store (\<^verbatim>\<open>infrastructure/models.py\<close>)\<close>

text \<open>
  JSON values of the responses. \<open>JIso t\<close> is the string \<^verbatim>\<open>t.isoformat()\<close>, kept
  symbolic. A \<^verbatim>\<open>dict\<close> is an association list in insertion order.
\<close>

datatype json =
    JNull
  | JInt int
  | JStr string
  | JBool bool
  | JIso datetime
  | JList "json list"
  | JObject "(string \<times> json) list"

type_synonym json_dict = "(string \<times> json) list"

record transfer_model =
  tm_id :: int
  tm_from_merchant :: string
  tm_to_merchant :: string
  tm_currency :: string
  tm_amount :: decimal
  tm_fee :: decimal
  tm_idempotency_key :: string
  tm_created_at :: datetime

text \<open>
  \<open>merchants\<close>: name to creation time (unique name). \<open>balances\<close>: (merchant, currency)
  to amount (unique pair). \<open>transfers\<close>: the rows in insertion order, with a unique
  idempotency key; \<open>transfer_seq\<close> is the last identifier handed out.
  \<open>idempotency_keys\<close>: key to (transfer id, response snapshot) (unique key).
  The length limits of the string columns (\<^verbatim>\<open>String(255)\<close>, \<^verbatim>\<open>String(10)\<close>) are not
  modelled: names, currencies and keys are within them.
\<close>

record store =
  merchants :: "(string \<times> datetime) list"
  balances :: "((string \<times> string) \<times> decimal) list"
  transfers :: "transfer_model list"
  transfer_seq :: int
  idempotency_keys :: "(string \<times> int \<times> json_dict) list"

definition empty_store :: store where
  "empty_store = \<lparr>merchants = [], balances = [], transfers = [], transfer_seq = 0,
                   idempotency_keys = []\<rparr>"

text \<open>
  The columns \<^verbatim>\<open>amount\<close> and \<^verbatim>\<open>fee\<close> are \<^verbatim>\<open>Numeric(20, 8)\<close>. A decimal written to
  such a column is rounded by the engine to 8 fractional digits, a dropped part of half
  a unit or more away from zero; the statement fails with the engine's ``numeric field
  overflow'' (\<open>DataError\<close>) when the rounded value needs more than 12 digits before the
  point. What is read back has the exponent \<open>-8\<close>: \<^verbatim>\<open>1.00000000\<close>, \<^verbatim>\<open>0E-8\<close>.
\<close>

definition round_half_up_drop :: "nat \<Rightarrow> nat \<Rightarrow> nat" where
  "round_half_up_drop m k =
     (let q = m div 10 ^ k; r = m mod 10 ^ k in if 10 ^ k \<le> 2 * r then q + 1 else q)"

definition numeric_20_8 :: "decimal \<Rightarrow> error + decimal" where
  "numeric_20_8 d =
     (let m = nat \<bar>coefficient d\<bar>;
          m8 = (if - 8 \<le> exponent d then m * 10 ^ nat (exponent d + 8)
                else round_half_up_drop m (nat (- 8 - exponent d)))
      in if 10 ^ 20 \<le> m8 then Inl DataError
         else Inr (Decimal (with_sign (coefficient d) m8) (- 8)))"


subsection \<open>Repositories (\<^verbatim>\<open>infrastructure/repositories.py\<close>)\<close>

text \<open>
  A read returns the entity built from the row, so the entity's checks run on it. A
  write is \<^verbatim>\<open>flush()\<close>, where the engine converts the decimals to their columns and
  then checks the unique indexes (\<open>DataError\<close>, \<open>IntegrityError\<close>; the failed statement
  writes nothing), and \<^verbatim>\<open>refresh()\<close>, which reads the row back: the entity returned is
  built from the values of the row, not from the arguments.
\<close>

definition MerchantRepository_create :: "store \<Rightarrow> merchant \<Rightarrow> (error + merchant) \<times> store" where
  "MerchantRepository_create s m =
     (if map_of (merchants s) (m_name m) \<noteq> None then (Inl IntegrityError, s)
      else (Merchant (m_name m) (m_created_at m),
            s\<lparr>merchants := merchants s @ [(m_name m, m_created_at m)]\<rparr>))"

definition MerchantRepository_get_by_name :: "store \<Rightarrow> string \<Rightarrow> error + merchant option" where
  "MerchantRepository_get_by_name s nm =
     (case map_of (merchants s) nm of
        None \<Rightarrow> Inr None
      | Some created \<Rightarrow> (case Merchant nm created of Inl e \<Rightarrow> Inl e | Inr m \<Rightarrow> Inr (Some m)))"

definition BalanceRepository_create :: "store \<Rightarrow> balance \<Rightarrow> (error + balance) \<times> store" where
  "BalanceRepository_create s b =
     (case numeric_20_8 (b_amount b) of
        Inl e \<Rightarrow> (Inl e, s)
      | Inr stored \<Rightarrow>
          if map_of (balances s) (b_merchant_name b, b_currency b) \<noteq> None
          then (Inl IntegrityError, s)
          else (Balance (b_merchant_name b) (b_currency b) stored,
                s\<lparr>balances := balances s @ [((b_merchant_name b, b_currency b), stored)]\<rparr>))"

definition BalanceRepository_get :: "store \<Rightarrow> string \<Rightarrow> string \<Rightarrow> error + balance option" where
  "BalanceRepository_get s nm cur =
     (case map_of (balances s) (nm, cur) of
        None \<Rightarrow> Inr None
      | Some amt \<Rightarrow> (case Balance nm cur amt of Inl e \<Rightarrow> Inl e | Inr b \<Rightarrow> Inr (Some b)))"

text \<open>The list comprehension over the rows of one merchant; it stops at the first raise.\<close>

fun balance_entities :: "((string \<times> string) \<times> decimal) list \<Rightarrow> error + balance list" where
  "balance_entities [] = Inr []"
| "balance_entities (((nm, cur), amt) # rows) =
     (case Balance nm cur amt of
        Inl e \<Rightarrow> Inl e
      | Inr b \<Rightarrow> (case balance_entities rows of Inl e \<Rightarrow> Inl e | Inr bs \<Rightarrow> Inr (b # bs)))"

definition BalanceRepository_get_all_for_merchant :: "store \<Rightarrow> string \<Rightarrow> error + balance list" where
  "BalanceRepository_get_all_for_merchant s nm =
     balance_entities (filter (\<lambda>row. fst (fst row) = nm) (balances s))"

definition BalanceRepository_add_amount ::
  "store \<Rightarrow> string \<Rightarrow> string \<Rightarrow> decimal \<Rightarrow> (error + balance) \<times> store" where
  "BalanceRepository_add_amount s nm cur amount =
     (case map_of (balances s) (nm, cur) of
        Some current \<Rightarrow>
          (let new_amount = dec_add current amount
           in if dec_lt0 new_amount then (Inl (ValueError ''Balance cannot be negative''), s)
              else case numeric_20_8 new_amount of
                     Inl e \<Rightarrow> (Inl e, s)
                   | Inr stored \<Rightarrow>
                       (Balance nm cur stored,
                        s\<lparr>balances := AList.update (nm, cur) stored (balances s)\<rparr>))
      | None \<Rightarrow>
          (if dec_lt0 amount then (Inl (ValueError ''Balance cannot be negative''), s)
           else case numeric_20_8 amount of
                  Inl e \<Rightarrow> (Inl e, s)
                | Inr stored \<Rightarrow>
                    (Balance nm cur stored,
                     s\<lparr>balances := balances s @ [((nm, cur), stored)]\<rparr>)))"

definition BalanceRepository_subtract_amount ::
  "store \<Rightarrow> string \<Rightarrow> string \<Rightarrow> decimal \<Rightarrow> (error + balance) \<times> store" where
  "BalanceRepository_subtract_amount s nm cur amount =
     (case map_of (balances s) (nm, cur) of
        None \<Rightarrow>
          (Inl (ValueError (''Insufficient funds: no balance found for '' @ nm @ '' in '' @ cur)), s)
      | Some current \<Rightarrow>
          (let new_amount = dec_sub current amount
           in if dec_lt0 new_amount
              then (Inl (ValueError
                      (''Insufficient funds: balance would become negative. Current: ''
                       @ str_decimal current @ '', Required: '' @ str_decimal amount)), s)
              else case numeric_20_8 new_amount of
                     Inl e \<Rightarrow> (Inl e, s)
                   | Inr stored \<Rightarrow>
                       (Balance nm cur stored,
                        s\<lparr>balances := AList.update (nm, cur) stored (balances s)\<rparr>)))"

definition transfer_of_model :: "transfer_model \<Rightarrow> error + transfer" where
  "transfer_of_model r =
     Transfer (Some (tm_id r)) (tm_from_merchant r) (tm_to_merchant r) (tm_currency r)
       (tm_amount r) (tm_fee r) (tm_idempotency_key r) (tm_created_at r)"

definition TransferRepository_create :: "store \<Rightarrow> transfer \<Rightarrow> (error + transfer) \<times> store" where
  "TransferRepository_create s t =
     (case numeric_20_8 (t_amount t) of
        Inl e \<Rightarrow> (Inl e, s)
      | Inr stored_amount \<Rightarrow>
     (case numeric_20_8 (t_fee t) of
        Inl e \<Rightarrow> (Inl e, s)
      | Inr stored_fee \<Rightarrow>
          if t_idempotency_key t \<in> set (map tm_idempotency_key (transfers s))
          then (Inl IntegrityError, s)
          else let row = \<lparr>tm_id = transfer_seq s + 1,
                            tm_from_merchant = t_from_merchant t,
                            tm_to_merchant = t_to_merchant t,
                            tm_currency = t_currency t, tm_amount = stored_amount,
                            tm_fee = stored_fee,
                            tm_idempotency_key = t_idempotency_key t,
                            tm_created_at = t_created_at t\<rparr>
               in (transfer_of_model row,
                   s\<lparr>transfers := transfers s @ [row], transfer_seq := transfer_seq s + 1\<rparr>)))"

definition TransferRepository_get_by_idempotency_key ::
  "store \<Rightarrow> string \<Rightarrow> error + transfer option" where
  "TransferRepository_get_by_idempotency_key s key =
     (case find (\<lambda>r. tm_idempotency_key r = key) (transfers s) of
        None \<Rightarrow> Inr None
      | Some r \<Rightarrow> (case transfer_of_model r of Inl e \<Rightarrow> Inl e | Inr t \<Rightarrow> Inr (Some t)))"

text \<open>
  Python's truth value of an optional string argument (\<^verbatim>\<open>if from_merchant:\<close>):
  \<^verbatim>\<open>None\<close> and the empty string are both false.
\<close>

definition truthy :: "string option \<Rightarrow> bool" where
  "truthy x = (case x of None \<Rightarrow> False | Some v \<Rightarrow> v \<noteq> [])"

fun transfer_entities :: "transfer_model list \<Rightarrow> error + transfer list" where
  "transfer_entities [] = Inr []"
| "transfer_entities (r # rows) =
     (case transfer_of_model r of
        Inl e \<Rightarrow> Inl e
      | Inr t \<Rightarrow> (case transfer_entities rows of Inl e \<Rightarrow> Inl e | Inr ts \<Rightarrow> Inr (t # ts)))"

text \<open>
  \<^verbatim>\<open>order_by(created_at.desc())\<close>: a stable sort, most recent first (the order of
  rows with equal times is the engine's; here, insertion order). \<open>limit\<close> and
  \<open>offset\<close> are natural numbers, as the route's bounds make them.
\<close>

definition TransferRepository_list ::
  "store \<Rightarrow> string option \<Rightarrow> string option \<Rightarrow> string option \<Rightarrow> nat \<Rightarrow> nat \<Rightarrow> error + transfer list"
  where
  "TransferRepository_list s from_merchant to_merchant currency limit offset =
     (let q0 = transfers s;
          q1 = (if truthy from_merchant
                then filter (\<lambda>r. tm_from_merchant r = the from_merchant) q0 else q0);
          q2 = (if truthy to_merchant
                then filter (\<lambda>r. tm_to_merchant r = the to_merchant) q1 else q1);
          q3 = (if truthy currency
                then filter (\<lambda>r. tm_currency r = the currency) q2 else q2);
          q4 = sort_key (\<lambda>r. - int (tm_created_at r)) q3
      in transfer_entities (take limit (drop offset q4)))"

definition IdempotencyRepository_store ::
  "store \<Rightarrow> string \<Rightarrow> int \<Rightarrow> json_dict \<Rightarrow> (error + unit) \<times> store" where
  "IdempotencyRepository_store s key transfer_id response_data =
     (if map_of (idempotency_keys s) key \<noteq> None then (Inl IntegrityError, s)
      else (Inr (),
            s\<lparr>idempotency_keys := idempotency_keys s @ [(key, transfer_id, response_data)]\<rparr>))"

definition IdempotencyRepository_get :: "store \<Rightarrow> string \<Rightarrow> json_dict option" where
  "IdempotencyRepository_get s key =
     (case map_of (idempotency_keys s) key of
        None \<Rightarrow> None
      | Some (transfer_id, response_data) \<Rightarrow> Some response_data)"


subsection \<open>Use cases (\<^verbatim>\<open>application/use_cases.py\<close>)\<close>

definition quoted :: "string \<Rightarrow> string" where
  "quoted x = [CHR 0x27] @ x @ [CHR 0x27]"

definition CreateMerchantUseCase_execute ::
  "store \<Rightarrow> string \<Rightarrow> string \<Rightarrow> decimal \<Rightarrow> datetime \<Rightarrow> (error + merchant) \<times> store" where
  "CreateMerchantUseCase_execute s merchant_name currency initial_balance now =
     (if dec_lt0 initial_balance then (Inl (ValueError ''Initial balance cannot be negative''), s)
      else case MerchantRepository_get_by_name s merchant_name of
        Inl e \<Rightarrow> (Inl e, s)
      | Inr (Some existing) \<Rightarrow>
          (Inl (ValueError (''Merchant '' @ quoted merchant_name @ '' already exists'')), s)
      | Inr None \<Rightarrow>
          (case Merchant merchant_name now of
             Inl e \<Rightarrow> (Inl e, s)
           | Inr m \<Rightarrow>
               (case MerchantRepository_create s m of
                  (Inl e, s1) \<Rightarrow> (Inl e, s1)
                | (Inr created, s1) \<Rightarrow>
                    if dec_gt0 initial_balance
                    then (case Balance merchant_name currency initial_balance of
                            Inl e \<Rightarrow> (Inl e, s1)
                          | Inr b \<Rightarrow>
                              (case BalanceRepository_create s1 b of
                                 (Inl e, s2) \<Rightarrow> (Inl e, s2)
                               | (Inr _, s2) \<Rightarrow> (Inr created, s2)))
                    else (Inr created, s1))))"

definition balance_json :: "balance \<Rightarrow> json" where
  "balance_json b =
     JObject [(''currency'', JStr (b_currency b)), (''amount'', JStr (str_decimal (b_amount b)))]"

definition GetMerchantUseCase_execute :: "store \<Rightarrow> string \<Rightarrow> error + json_dict" where
  "GetMerchantUseCase_execute s merchant_name =
     (case MerchantRepository_get_by_name s merchant_name of
        Inl e \<Rightarrow> Inl e
      | Inr None \<Rightarrow>
          Inl (MerchantNotFoundError (''Merchant '' @ quoted merchant_name @ '' not found''))
      | Inr (Some m) \<Rightarrow>
          (case BalanceRepository_get_all_for_merchant s merchant_name of
             Inl e \<Rightarrow> Inl e
           | Inr bs \<Rightarrow>
               Inr [(''merchant_name'', JStr (m_name m)),
                    (''created_at'', JIso (m_created_at m)),
                    (''balances'', JList (map balance_json bs))]))"

definition GetBalanceUseCase_execute ::
  "store \<Rightarrow> string \<Rightarrow> string option \<Rightarrow> error + json_dict" where
  "GetBalanceUseCase_execute s merchant_name currency =
     (case MerchantRepository_get_by_name s merchant_name of
        Inl e \<Rightarrow> Inl e
      | Inr None \<Rightarrow>
          Inl (MerchantNotFoundError (''Merchant '' @ quoted merchant_name @ '' not found''))
      | Inr (Some m) \<Rightarrow>
          if truthy currency
          then (case BalanceRepository_get s merchant_name (the currency) of
                  Inl e \<Rightarrow> Inl e
                | Inr None \<Rightarrow>
                    Inr [(''merchant_name'', JStr merchant_name),
                         (''currency'', JStr (the currency)),
                         (''amount'', JStr ''0'')]
                | Inr (Some b) \<Rightarrow>
                    Inr [(''merchant_name'', JStr merchant_name),
                         (''currency'', JStr (b_currency b)),
                         (''amount'', JStr (str_decimal (b_amount b)))])
          else (case BalanceRepository_get_all_for_merchant s merchant_name of
                  Inl e \<Rightarrow> Inl e
                | Inr bs \<Rightarrow>
                    Inr [(''merchant_name'', JStr merchant_name),
                         (''balances'', JList (map balance_json bs))]))"

text \<open>
  The \<^verbatim>\<open>except ValueError\<close> clause around the debit and the credit: a message that
  mentions \<^verbatim>\<open>negative\<close> or \<^verbatim>\<open>insufficient\<close> becomes \<open>InsufficientFundsError\<close>; any
  other \<open>ValueError\<close> is raised again; other exceptions are not caught.
\<close>

definition reraise :: "error \<Rightarrow> decimal \<Rightarrow> string \<Rightarrow> decimal \<Rightarrow> error" where
  "reraise e total_debit currency fee =
     (case e of
        ValueError msg \<Rightarrow>
          if sublist ''negative'' (lower msg) \<or> sublist ''insufficient'' (lower msg)
          then InsufficientFundsError
                 (''Insufficient funds. Required: '' @ str_decimal total_debit @ '' '' @ currency
                  @ '', including fee: '' @ str_decimal fee @ '' '' @ currency)
          else ValueError msg
      | _ \<Rightarrow> e)"

definition response_data_of :: "transfer \<Rightarrow> string \<Rightarrow> string \<Rightarrow> string \<Rightarrow> decimal \<Rightarrow> decimal \<Rightarrow> json_dict"
  where
  "response_data_of t from_merchant to_merchant currency amount fee =
     [(''transfer_id'', (case t_id t of None \<Rightarrow> JNull | Some i \<Rightarrow> JInt i)),
      (''from_merchant'', JStr from_merchant),
      (''to_merchant'', JStr to_merchant),
      (''currency'', JStr currency),
      (''amount'', JStr (str_decimal amount)),
      (''fee'', JStr (str_decimal fee)),
      (''created_at'', JIso (t_created_at t))]"

text \<open>
  \<^verbatim>\<open>ExecuteTransferUseCase.execute\<close>. The probe is written twice in the source; both
  reads return the same row. \<^verbatim>\<open>if stored_response:\<close> is the truth value of a dict.
\<close>

definition ExecuteTransferUseCase_execute ::
  "decimal \<Rightarrow> store \<Rightarrow> string \<Rightarrow> string \<Rightarrow> string \<Rightarrow> decimal \<Rightarrow> string \<Rightarrow> datetime
   \<Rightarrow> (error + json_dict) \<times> store" where
  "ExecuteTransferUseCase_execute fee_percent s from_merchant to_merchant currency amount
     idempotency_key now =
     (let stored_response = IdempotencyRepository_get s idempotency_key
      in if stored_response \<noteq> None \<and> the stored_response \<noteq> []
         then (Inr (the stored_response), s)
         else case MerchantRepository_get_by_name s from_merchant of
           Inl e \<Rightarrow> (Inl e, s)
         | Inr None \<Rightarrow>
             (Inl (MerchantNotFoundError (''Merchant '' @ quoted from_merchant @ '' not found'')), s)
         | Inr (Some from_merchant_obj) \<Rightarrow>
         (case MerchantRepository_get_by_name s to_merchant of
           Inl e \<Rightarrow> (Inl e, s)
         | Inr None \<Rightarrow>
             (Inl (MerchantNotFoundError (''Merchant '' @ quoted to_merchant @ '' not found'')), s)
         | Inr (Some to_merchant_obj) \<Rightarrow>
         if from_merchant = to_merchant
         then (Inl (InvalidTransferError ''Cannot transfer to the same merchant''), s)
         else if dec_le0 amount
         then (Inl (InvalidTransferError ''Transfer amount must be positive''), s)
         else (case calculate_fee fee_percent amount of
           Inl e \<Rightarrow> (Inl e, s)
         | Inr fee \<Rightarrow>
         (let total_debit = dec_add amount fee
          in case BalanceRepository_subtract_amount s from_merchant currency total_debit of
           (Inl e, s1) \<Rightarrow> (Inl (reraise e total_debit currency fee), s1)
         | (Inr _, s1) \<Rightarrow>
         (case BalanceRepository_add_amount s1 to_merchant currency amount of
           (Inl e, s2) \<Rightarrow> (Inl (reraise e total_debit currency fee), s2)
         | (Inr _, s2) \<Rightarrow>
         (case Transfer None from_merchant to_merchant currency amount fee idempotency_key now of
           Inl e \<Rightarrow> (Inl e, s2)
         | Inr t0 \<Rightarrow>
         (case TransferRepository_create s2 t0 of
           (Inl e, s3) \<Rightarrow> (Inl e, s3)
         | (Inr t, s3) \<Rightarrow>
         (let response_data = response_data_of t from_merchant to_merchant currency amount fee
          in case t_id t of
           None \<Rightarrow> (Inl IntegrityError, s3)
         | Some transfer_id \<Rightarrow>
         (case IdempotencyRepository_store s3 idempotency_key transfer_id response_data of
           (Inl e, s4) \<Rightarrow> (Inl e, s4)
         | (Inr _, s4) \<Rightarrow> (Inr response_data, s4))))))))))"

definition transfer_json :: "transfer \<Rightarrow> json_dict" where
  "transfer_json t =
     [(''transfer_id'', (case t_id t of None \<Rightarrow> JNull | Some i \<Rightarrow> JInt i)),
      (''from_merchant'', JStr (t_from_merchant t)),
      (''to_merchant'', JStr (t_to_merchant t)),
      (''currency'', JStr (t_currency t)),
      (''amount'', JStr (str_decimal (t_amount t))),
      (''fee'', JStr (str_decimal (t_fee t))),
      (''created_at'', JIso (t_created_at t))]"

definition ListTransfersUseCase_execute ::
  "store \<Rightarrow> string option \<Rightarrow> string option \<Rightarrow> string option \<Rightarrow> nat \<Rightarrow> nat
   \<Rightarrow> error + json_dict list" where
  "ListTransfersUseCase_execute s from_merchant to_merchant currency limit offset =
     (case TransferRepository_list s from_merchant to_merchant currency limit offset of
        Inl e \<Rightarrow> Inl e
      | Inr ts \<Rightarrow> Inr (map transfer_json ts))"


subsection \<open>Session and route (\<^verbatim>\<open>infrastructure/database.py\<close>, \<^verbatim>\<open>api/routes.py\<close>)\<close>

text \<open>
  \<^verbatim>\<open>get_db\<close>: the request body runs on the session; a normal return commits what it
  wrote, an exception rolls the session back and is raised again.
\<close>

definition get_db :: "(store \<Rightarrow> (error + 'a) \<times> store) \<Rightarrow> store \<Rightarrow> (error + 'a) \<times> store" where
  "get_db body s = (case body s of (Inl e, s') \<Rightarrow> (Inl e, s) | (Inr r, s') \<Rightarrow> (Inr r, s'))"

text \<open>
  The response model \<^verbatim>\<open>TransferResponse\<close> (\<^verbatim>\<open>api/schemas.py\<close>) built from keyword
  arguments: seven required fields, \<^verbatim>\<open>is_duplicate\<close> with default \<^verbatim>\<open>False\<close> and
  \<^verbatim>\<open>message\<close> with default \<^verbatim>\<open>None\<close>; other keys are ignored. A missing or ill-typed
  field raises the validation error of the framework.
\<close>

definition str_field :: "json_dict \<Rightarrow> string \<Rightarrow> json option" where
  "str_field d k =
     (case map_of d k of
        Some (JStr v) \<Rightarrow> Some (JStr v)
      | Some (JIso t) \<Rightarrow> Some (JIso t)
      | _ \<Rightarrow> None)"

definition int_field :: "json_dict \<Rightarrow> string \<Rightarrow> json option" where
  "int_field d k = (case map_of d k of Some (JInt i) \<Rightarrow> Some (JInt i) | _ \<Rightarrow> None)"

definition bool_field_default :: "json_dict \<Rightarrow> string \<Rightarrow> bool \<Rightarrow> json option" where
  "bool_field_default d k dflt =
     (case map_of d k of
        None \<Rightarrow> Some (JBool dflt)
      | Some (JBool b) \<Rightarrow> Some (JBool b)
      | _ \<Rightarrow> None)"

definition optional_str_field :: "json_dict \<Rightarrow> string \<Rightarrow> json option" where
  "optional_str_field d k =
     (case map_of d k of
        None \<Rightarrow> Some JNull
      | Some JNull \<Rightarrow> Some JNull
      | Some (JStr v) \<Rightarrow> Some (JStr v)
      | _ \<Rightarrow> None)"

definition TransferResponse_fields :: "json_dict \<Rightarrow> (string \<times> json option) list" where
  "TransferResponse_fields d =
     [(''transfer_id'', int_field d ''transfer_id''),
      (''from_merchant'', str_field d ''from_merchant''),
      (''to_merchant'', str_field d ''to_merchant''),
      (''currency'', str_field d ''currency''),
      (''amount'', str_field d ''amount''),
      (''fee'', str_field d ''fee''),
      (''created_at'', str_field d ''created_at''),
      (''is_duplicate'', bool_field_default d ''is_duplicate'' False),
      (''message'', optional_str_field d ''message'')]"

definition TransferResponse :: "json_dict \<Rightarrow> error + json_dict" where
  "TransferResponse d =
     (if list_all (\<lambda>(k, v). v \<noteq> None) (TransferResponse_fields d)
      then Inr (map (\<lambda>(k, v). (k, the v)) (TransferResponse_fields d))
      else Inl ValidationError)"

text \<open>The \<^verbatim>\<open>except\<close> clauses of the route, in their order.\<close>

definition http_error :: "error \<Rightarrow> error" where
  "http_error e =
     (case e of
        MerchantNotFoundError msg \<Rightarrow> HTTPException 404 msg
      | InsufficientFundsError msg \<Rightarrow> HTTPException 409 msg
      | InvalidTransferError msg \<Rightarrow> HTTPException 400 msg
      | ValueError msg \<Rightarrow> HTTPException 400 msg
      | ValidationError \<Rightarrow> HTTPException 400 ''validation error''
      | _ \<Rightarrow> HTTPException 500 ''Internal server error'')"

text \<open>
  The body of the route \<^verbatim>\<open>execute_transfer\<close>. The request has passed the schema
  \<^verbatim>\<open>TransferRequest\<close>; \<open>amount\<close> is \<^verbatim>\<open>Decimal(request.amount)\<close>.
\<close>

definition execute_transfer_body ::
  "decimal \<Rightarrow> string \<Rightarrow> string \<Rightarrow> string \<Rightarrow> decimal \<Rightarrow> string \<Rightarrow> datetime \<Rightarrow> store
   \<Rightarrow> (error + json_dict) \<times> store" where
  "execute_transfer_body fee_percent from_merchant to_merchant currency amount header now s =
     (if header = [] \<or> strip header = []
      then (Inl (HTTPException 400 ''Idempotency-Key header is required''), s)
      else
        let idempotency_key = strip header;
            stored_response = IdempotencyRepository_get s idempotency_key
        in if stored_response \<noteq> None \<and> the stored_response \<noteq> []
           then
             (let r1 = AList.update ''is_duplicate'' (JBool True) (the stored_response);
                  r2 = AList.update ''message''
                         (JStr (''This Idempotency-Key '' @ quoted idempotency_key
                                @ '' was already used. Returning previous transfer result.'')) r1
              in (TransferResponse r2, s))
           else
             (case ExecuteTransferUseCase_execute fee_percent s from_merchant to_merchant
                     currency amount idempotency_key now of
                (Inl e, s') \<Rightarrow> (Inl (http_error e), s')
              | (Inr result, s') \<Rightarrow>
                  (let r1 = AList.update ''is_duplicate'' (JBool False) result;
                       r2 = AList.update ''message'' (JStr ''Transfer executed successfully'') r1
                   in case TransferResponse r2 of
                        Inl e \<Rightarrow> (Inl (http_error e), s')
                      | Inr response \<Rightarrow> (Inr response, s'))))"

definition execute_transfer ::
  "decimal \<Rightarrow> string \<Rightarrow> string \<Rightarrow> string \<Rightarrow> decimal \<Rightarrow> string \<Rightarrow> datetime \<Rightarrow> store
   \<Rightarrow> (error + json_dict) \<times> store" where
  "execute_transfer fee_percent from_merchant to_merchant currency amount header now =
     get_db (execute_transfer_body fee_percent from_merchant to_merchant currency amount header now)"

subsection \<open>Reference notions for the statements\<close>

text \<open>The exact value of a decimal, as a real number.\<close>

definition dval :: "decimal \<Rightarrow> real" where
  "dval d = of_int (coefficient d) * 10 powi exponent d"


text \<open>The number of transfer rows that carry an idempotency key.\<close>

definition transfers_with_key :: "store \<Rightarrow> string \<Rightarrow> nat" where
  "transfers_with_key s key = length (filter (\<lambda>r. tm_idempotency_key r = key) (transfers s))"


subsection \<open>Stores used to instantiate the statements\<close>

text \<open>
  The run of the scenario: alice is created with 1.0 BTC, bob with 0, and 0.00005 BTC
  go from alice to bob under a fee of 0.1 percent.
\<close>

definition scenario_before :: "datetime \<Rightarrow> datetime \<Rightarrow> store" where
  "scenario_before t1 t2 =
     snd (CreateMerchantUseCase_execute
            (snd (CreateMerchantUseCase_execute empty_store ''alice'' ''BTC'' (Decimal 10 (- 1)) t1))
            ''bob'' ''BTC'' (Decimal 0 0) t2)"

definition scenario_after :: "datetime \<Rightarrow> datetime \<Rightarrow> datetime \<Rightarrow> store" where
  "scenario_after t1 t2 t3 =
     snd (ExecuteTransferUseCase_execute (Decimal 1 (- 1)) (scenario_before t1 t2)
            ''alice'' ''bob'' ''BTC'' (Decimal 5 (- 5)) ''k1'' t3)"

definition alice_bob :: "datetime \<Rightarrow> datetime \<Rightarrow> store" where
  "alice_bob t1 t2 =
     \<lparr>merchants = [(''alice'', t1), (''bob'', t2)],
      balances = [((''alice'', ''BTC''), Decimal 100000000 (- 8))],
      transfers = [], transfer_seq = 0, idempotency_keys = []\<rparr>"

definition paid_response :: "datetime \<Rightarrow> json_dict" where
  "paid_response t3 =
     [(''transfer_id'', JInt 1), (''from_merchant'', JStr ''alice''),
      (''to_merchant'', JStr ''bob''), (''currency'', JStr ''BTC''),
      (''amount'', JStr ''0.00005''), (''fee'', JStr ''5E-8''), (''created_at'', JIso t3)]"

definition paid_store :: "datetime \<Rightarrow> datetime \<Rightarrow> datetime \<Rightarrow> store" where
  "paid_store t1 t2 t3 =
     \<lparr>merchants = [(''alice'', t1), (''bob'', t2)],
      balances = [((''alice'', ''BTC''), Decimal 99994995 (- 8)),
                  ((''bob'', ''BTC''), Decimal 5000 (- 8))],
      transfers = [\<lparr>tm_id = 1, tm_from_merchant = ''alice'', tm_to_merchant = ''bob'',
                    tm_currency = ''BTC'', tm_amount = Decimal 5000 (- 8), tm_fee = Decimal 5 (- 8),
                    tm_idempotency_key = ''k1'', tm_created_at = t3\<rparr>],
      transfer_seq = 1,
      idempotency_keys = [(''k1'', 1, paid_response t3)]\<rparr>"

text \<open>Alice holds 10.00899900 BTC; bob has no balance row.\<close>

definition rounding_store :: store where
  "rounding_store =
     \<lparr>merchants = [(''alice'', 1), (''bob'', 2)],
      balances = [((''alice'', ''BTC''), Decimal 1000899900 (- 8))],
      transfers = [], transfer_seq = 0, idempotency_keys = []\<rparr>"

text \<open>The store \<open>alice_bob\<close> with a stored zero balance for bob.\<close>

definition bob_zero_row :: "datetime \<Rightarrow> datetime \<Rightarrow> store" where
  "bob_zero_row t1 t2 =
     \<lparr>merchants = [(''alice'', t1), (''bob'', t2)],
      balances = [((''alice'', ''BTC''), Decimal 100000000 (- 8)),
                  ((''bob'', ''BTC''), Decimal 0 (- 8))],
      transfers = [], transfer_seq = 0, idempotency_keys = []\<rparr>"

definition example_balances :: store where
  "example_balances =
     \<lparr>merchants = [(''alice'', 1)],
      balances = [((''alice'', ''BTC''), Decimal 100000000 (- 8))],
      transfers = [], transfer_seq = 0, idempotency_keys = []\<rparr>"

section \<open>Evaluation rules\<close>

lemma ndigits_small: "n < 10 \<Longrightarrow> ndigits n = 1"
  by (simp add: ndigits.simps)

lemma ndigits_large: "10 \<le> n \<Longrightarrow> ndigits n = Suc (ndigits (n div 10))"
  by (subst ndigits.simps) simp

lemma strip_zeros_step:
  "e < ideal \<Longrightarrow> coeff mod 10 = 0 \<Longrightarrow>
   strip_zeros coeff e ideal = strip_zeros (coeff div 10) (e + 1) ideal"
  by (subst strip_zeros.simps) simp

lemma strip_zeros_stop:
  "\<not> (e < ideal \<and> coeff mod 10 = 0) \<Longrightarrow> strip_zeros coeff e ideal = (coeff, e)"
  by (subst strip_zeros.simps) auto

lemma str_nat_small: "n < 10 \<Longrightarrow> str_nat n = [digit_char n]"
  by (simp add: str_nat.simps)

lemma str_nat_large: "10 \<le> n \<Longrightarrow> str_nat n = str_nat (n div 10) @ [digit_char (n mod 10)]"
  by (subst str_nat.simps) simp

lemma replicate_numeral_eval: "replicate (numeral k) x = x # replicate (pred_numeral k) x"
  by (simp add: numeral_eq_Suc)

lemmas dec_eval = replicate_numeral_eval
  ndigits_small ndigits_large strip_zeros_step strip_zeros_stop str_nat_small str_nat_large
  dec_fix_def dec_mul_def dec_add_def dec_sub_def copy_negate_def dec_div_def rescale_def
  adjusted_def quantize_def dec_lt0_def dec_le0_def dec_gt0_def prec_def with_sign_def
  round_half_even_drop_def digit_char_def str_int_def str_decimal_def Let_def

lemmas repo_eval =
  round_half_up_drop_def numeric_20_8_def with_sign_def
  Merchant_def Balance_def Transfer_def MerchantRepository_create_def
  MerchantRepository_get_by_name_def BalanceRepository_create_def BalanceRepository_get_def
  BalanceRepository_get_all_for_merchant_def BalanceRepository_add_amount_def
  BalanceRepository_subtract_amount_def transfer_of_model_def TransferRepository_create_def
  IdempotencyRepository_store_def IdempotencyRepository_get_def

lemmas repo_defs =
  Merchant_def Balance_def Transfer_def MerchantRepository_create_def
  MerchantRepository_get_by_name_def BalanceRepository_create_def BalanceRepository_get_def
  BalanceRepository_get_all_for_merchant_def BalanceRepository_add_amount_def
  BalanceRepository_subtract_amount_def transfer_of_model_def TransferRepository_create_def
  IdempotencyRepository_store_def IdempotencyRepository_get_def

section \<open>Digits, signs and exact values\<close>

lemma ndigits_pos: "0 < ndigits n"
  by (subst ndigits.simps) simp

lemma ndigits_le_iff: "0 < k \<Longrightarrow> ndigits n \<le> k \<longleftrightarrow> n < 10 ^ k"
proof (induction n arbitrary: k rule: ndigits.induct)
  case (1 n)
  show ?case
  proof (cases "n < 10")
    case True
    have "(10::nat) ^ 1 \<le> 10 ^ k" using "1.prems" by (intro power_increasing) auto
    with True show ?thesis using "1.prems" by (simp add: ndigits_small)
  next
    case False
    then have nd: "ndigits n = Suc (ndigits (n div 10))" by (simp add: ndigits_large)
    show ?thesis
    proof (cases "k = 1")
      case True
      with False nd show ?thesis using ndigits_pos [of "n div 10"] by simp
    next
      case k: False
      with "1.prems" obtain j where j: "k = Suc j" "0 < j" by (cases k) auto
      have "ndigits (n div 10) \<le> j \<longleftrightarrow> n div 10 < 10 ^ j"
        using "1.IH" [OF False j(2)] .
      also have "\<dots> \<longleftrightarrow> n < 10 ^ k"
        using j by (simp add: div_less_iff_less_mult mult.commute)
      finally show ?thesis using nd j by simp
    qed
  qed
qed

lemma ndigits_gt_iff: "0 < k \<Longrightarrow> k < ndigits n \<longleftrightarrow> 10 ^ k \<le> n"
  using ndigits_le_iff [of k n] by auto

lemma ndigits_lower: "0 < n \<Longrightarrow> 10 ^ (ndigits n - 1) \<le> n"
proof -
  assume n: "0 < n"
  show ?thesis
  proof (cases "ndigits n = 1")
    case True then show ?thesis using n by simp
  next
    case False
    then have "0 < ndigits n - 1" "ndigits n - 1 < ndigits n" using ndigits_pos [of n] by auto
    then show ?thesis using ndigits_gt_iff by blast
  qed
qed

lemma round_half_even_drop_ge: "m div 10 ^ k \<le> round_half_even_drop m k"
  by (simp add: round_half_even_drop_def Let_def)

lemma dec_fix_small: "ndigits (nat \<bar>coefficient d\<bar>) \<le> prec \<Longrightarrow> dec_fix d = d"
  by (simp add: dec_fix_def Let_def)

lemma dec_fix_magnitude_pos:
  assumes "prec < ndigits m"
  shows "0 < (let k = ndigits m - prec; q = round_half_even_drop m k
              in if prec < ndigits q then q div 10 else q)"
proof -
  define k where "k = ndigits m - prec"
  define q where "q = round_half_even_drop m k"
  have m: "0 < m" using assms by (cases "m = 0") (auto simp: ndigits_small prec_def)
  have "10 ^ k \<le> m"
  proof -
    have "k \<le> ndigits m - 1" using assms by (simp add: k_def prec_def)
    then have "(10::nat) ^ k \<le> 10 ^ (ndigits m - 1)" by (intro power_increasing) auto
    with ndigits_lower [OF m] show ?thesis by linarith
  qed
  then have "1 \<le> m div 10 ^ k" by (simp add: Suc_leI div_greater_zero_iff)
  with round_half_even_drop_ge [of m k] have q1: "1 \<le> q" by (simp add: q_def)
  have "prec < ndigits q \<Longrightarrow> 0 < q div 10"
  proof -
    assume "prec < ndigits q"
    then have "10 ^ prec \<le> q" using ndigits_gt_iff [of prec q] by (simp add: prec_def)
    then have "10 \<le> q" by (simp add: prec_def)
    then show ?thesis by (simp add: div_greater_zero_iff)
  qed
  with q1 show ?thesis by (auto simp: Let_def k_def q_def)
qed

lemma dec_fix_sign:
  "(coefficient (dec_fix d) < 0) = (coefficient d < 0)"
  "(0 < coefficient (dec_fix d)) = (0 < coefficient d)"
proof -
  show "(coefficient (dec_fix d) < 0) = (coefficient d < 0)"
  proof (cases "ndigits (nat \<bar>coefficient d\<bar>) \<le> prec")
    case True then show ?thesis by (simp add: dec_fix_small)
  next
    case False
    then have "prec < ndigits (nat \<bar>coefficient d\<bar>)" by simp
    from dec_fix_magnitude_pos [OF this] False show ?thesis
      by (auto simp: dec_fix_def Let_def with_sign_def)
  qed
  show "(0 < coefficient (dec_fix d)) = (0 < coefficient d)"
  proof (cases "ndigits (nat \<bar>coefficient d\<bar>) \<le> prec")
    case True then show ?thesis by (simp add: dec_fix_small)
  next
    case False
    then have gt: "prec < ndigits (nat \<bar>coefficient d\<bar>)" by simp
    then have "coefficient d \<noteq> 0" by (auto simp: ndigits_small prec_def)
    with dec_fix_magnitude_pos [OF gt] False show ?thesis
      by (auto simp: dec_fix_def Let_def with_sign_def)
  qed
qed

lemma powi10_pos: "0 < (10::real) powi e"
  by (simp add: zero_less_power_int)

lemma powi10_not_neg: "((10::real) powi e < 0) = False"
  using powi10_pos [of e] by (simp only: not_less [symmetric] less_imp_le simp_thms)

lemma dval_neg_iff: "dval d < 0 \<longleftrightarrow> coefficient d < 0"
  by (simp add: dval_def mult_less_0_iff powi10_not_neg)

lemma dval_exact_sum:
  "of_int (coefficient a * 10 ^ nat (exponent a - min (exponent a) (exponent b))
           + coefficient b * 10 ^ nat (exponent b - min (exponent a) (exponent b)))
     * 10 powi (min (exponent a) (exponent b)) = dval a + dval b"
proof -
  have shift: "(10::real) ^ nat (x - e) * 10 powi e = 10 powi x" if "e \<le> x" for x e :: int
  proof -
    have "(10::real) ^ nat (x - e) = 10 powi (x - e)" using that by (simp add: power_int_def)
    then show ?thesis by (simp add: power_int_add [symmetric])
  qed
  have "(10::real) ^ nat (exponent a - min (exponent a) (exponent b))
          * 10 powi (min (exponent a) (exponent b)) = 10 powi exponent a"
       "(10::real) ^ nat (exponent b - min (exponent a) (exponent b))
          * 10 powi (min (exponent a) (exponent b)) = 10 powi exponent b"
    by (rule shift, simp)+
  then show ?thesis
    by (simp add: dval_def algebra_simps)
qed

lemma dec_add_lt0: "dec_lt0 (dec_add a b) \<longleftrightarrow> dval a + dval b < 0"
proof -
  define e where "e = min (exponent a) (exponent b)"
  define c where "c = coefficient a * 10 ^ nat (exponent a - e) + coefficient b * 10 ^ nat (exponent b - e)"
  have "dec_lt0 (dec_add a b) \<longleftrightarrow> c < 0"
    by (simp add: dec_lt0_def dec_add_def Let_def dec_fix_sign c_def e_def)
  also have "\<dots> \<longleftrightarrow> dval (Decimal c e) < 0" by (simp add: dval_neg_iff)
  also have "dval (Decimal c e) = dval a + dval b"
    using dval_exact_sum [of a b] by (simp add: dval_def c_def e_def)
  finally show ?thesis .
qed

lemma dval_copy_negate: "dval (copy_negate d) = - dval d"
  by (simp add: dval_def copy_negate_def)

lemma dec_sub_lt0: "dec_lt0 (dec_sub a b) \<longleftrightarrow> dval a - dval b < 0"
  by (simp add: dec_sub_def dec_add_lt0 dval_copy_negate)

section \<open>The fee calculator\<close>

















lemma fee_too_large: "calculate_fee (Decimal 1 (- 1)) (Decimal 1 25) = Inl InvalidOperation"
  by (simp add: calculate_fee_def dec_eval)




section \<open>The \<^verbatim>\<open>Numeric(20, 8)\<close> column\<close>

lemma round_half_even_drop_le: 
  assumes "m \<le> B * 10 ^ k" shows "round_half_even_drop m k \<le> B"
proof -
  define q where "q = m div 10 ^ k"
  define r where "r = m mod 10 ^ k"
  have m: "m = q * 10 ^ k + r" using div_mult_mod_eq [of m "10 ^ k"] by (simp add: q_def r_def)
  have qB: "q \<le> B" using div_le_mono [OF assms, of "10 ^ k"] by (simp add: q_def)
  show ?thesis
  proof (cases "q < B")
    case True
    then show ?thesis by (auto simp: round_half_even_drop_def Let_def q_def [symmetric])
  next
    case False
    with qB have "q = B" by simp
    with m assms have "r = 0" by simp
    then show ?thesis using qB
      by (simp add: round_half_even_drop_def Let_def q_def [symmetric] r_def [symmetric])
  qed
qed

lemma round_half_up_drop_le: 
  assumes "m \<le> B * 10 ^ k" shows "round_half_up_drop m k \<le> B"
proof -
  define q where "q = m div 10 ^ k"
  define r where "r = m mod 10 ^ k"
  have m: "m = q * 10 ^ k + r" using div_mult_mod_eq [of m "10 ^ k"] by (simp add: q_def r_def)
  have qB: "q \<le> B" using div_le_mono [OF assms, of "10 ^ k"] by (simp add: q_def)
  show ?thesis
  proof (cases "q < B")
    case True
    then show ?thesis by (auto simp: round_half_up_drop_def Let_def q_def [symmetric])
  next
    case False
    with qB have "q = B" by simp
    with m assms have "r = 0" by simp
    then show ?thesis using qB
      by (simp add: round_half_up_drop_def Let_def q_def [symmetric] r_def [symmetric])
  qed
qed

lemma numeric_20_8_fits:
  assumes "0 \<le> c" and "nat c \<le> B * 10 ^ k" and "e = - 8 - int k" and "B < 10 ^ 20"
  shows "\<exists>v. numeric_20_8 (Decimal c e) = Inr v"
proof (cases "k = 0")
  case True
  with assms show ?thesis by (simp add: numeric_20_8_def Let_def)
next
  case False
  then have "e < - 8" using assms(3) by simp
  moreover have "nat (- 8 - e) = k" using assms(3) by simp
  moreover have "round_half_up_drop (nat c) k < 10 ^ 20"
    using round_half_up_drop_le [OF assms(2)] assms(4) by simp
  ultimately show ?thesis using assms(1) by (simp add: numeric_20_8_def Let_def)
qed

lemma fix_then_column:
  assumes S: "0 \<le> S" and le: "nat S \<le> B * 10 ^ k" and e: "e = - 8 - int k"
      and B: "B < 10 ^ 20"
  shows "\<exists>v. numeric_20_8 (dec_fix (Decimal S e)) = Inr v"
proof (cases "ndigits (nat S) \<le> prec")
  case True
  then have "dec_fix (Decimal S e) = Decimal S e" using S by (simp add: dec_fix_small)
  with numeric_20_8_fits [OF S le e B] show ?thesis by simp
next
  case False
  define M where "M = nat S"
  define k1 where "k1 = ndigits M - prec"
  define q1 where "q1 = round_half_even_drop M k1"
  have big: "prec < ndigits M" using False by (simp add: M_def)
  have k1: "0 < k1" using big by (simp add: k1_def)
  have "M < 10 ^ 20 * 10 ^ k"
  proof -
    have "B * 10 ^ k < 10 ^ 20 * 10 ^ k" using B by (intro mult_strict_right_mono) simp_all
    with le show ?thesis unfolding M_def by (rule le_less_trans)
  qed
  then have "M < 10 ^ (20 + k)" by (simp add: power_add)
  then have "ndigits M \<le> 20 + k" using ndigits_le_iff [of "20 + k" M] by simp
  then have kk: "k1 + 8 \<le> k" using big by (simp add: k1_def prec_def)
  define j where "j = k - k1"
  have j: "k = j + k1" "8 \<le> j" using kk by (simp_all add: j_def)
  have "M \<le> (B * 10 ^ j) * 10 ^ k1" using le by (simp add: M_def j power_add mult.assoc)
  then have q1le: "q1 \<le> B * 10 ^ j" unfolding q1_def by (rule round_half_even_drop_le)
  have Sabs: "nat \<bar>S\<bar> = M" using S by (simp add: M_def)
  have ws: "with_sign S n = int n" for n using S by (simp add: with_sign_def)
  show ?thesis
  proof (cases "prec < ndigits q1")
    case True
    have fx: "dec_fix (Decimal S e) = Decimal (int (q1 div 10)) (e + int k1 + 1)"
      using big True by (simp add: dec_fix_def Let_def Sabs k1_def [symmetric] q1_def [symmetric] ws)
    obtain i where i: "j = Suc i" using j(2) by (cases j) auto
    have "q1 div 10 \<le> (B * 10 ^ j) div 10" using q1le by (rule div_le_mono)
    then have le2: "nat (int (q1 div 10)) \<le> B * 10 ^ i" by (simp add: i)
    have e2: "e + int k1 + 1 = - 8 - int i" using e j(1) i by simp
    from numeric_20_8_fits [OF _ le2 e2 B] fx show ?thesis by simp
  next
    case nocarry: False
    have fx: "dec_fix (Decimal S e) = Decimal (int q1) (e + int k1)"
      using big nocarry by (simp add: dec_fix_def Let_def Sabs k1_def [symmetric] q1_def [symmetric] ws)
    have le2: "nat (int q1) \<le> B * 10 ^ j" using q1le by simp
    have e2: "e + int k1 = - 8 - int j" using e j(1) by simp
    from numeric_20_8_fits [OF _ le2 e2 B] fx show ?thesis by simp
  qed
qed

lemma column_no_overflow:
  assumes e8: "exponent current = - 8" and C: "coefficient current < 10 ^ 20"
      and A: "coefficient amount \<le> 0" and nn: "\<not> dec_lt0 (dec_add current amount)"
  shows "\<exists>v. numeric_20_8 (dec_add current amount) = Inr v"
proof -
  define e where "e = min (exponent current) (exponent amount)"
  define k where "k = nat (- 8 - e)"
  define S where "S = coefficient current * 10 ^ nat (exponent current - e)
                      + coefficient amount * 10 ^ nat (exponent amount - e)"
  have add: "dec_add current amount = dec_fix (Decimal S e)"
    by (simp add: dec_add_def Let_def S_def e_def)
  have S0: "0 \<le> S" using nn by (simp add: add dec_lt0_def dec_fix_sign)
  have ek: "e = - 8 - int k" using e8 by (simp add: e_def k_def)
  have kk: "nat (exponent current - e) = k" using e8 by (simp add: k_def)
  have "coefficient amount * 10 ^ nat (exponent amount - e) \<le> 0"
    using A by (simp add: mult_le_0_iff)
  then have Sle: "S \<le> coefficient current * 10 ^ k" by (simp add: S_def kk)
  with S0 have "0 \<le> coefficient current * 10 ^ k" by linarith
  have C0: "0 \<le> coefficient current"
  proof (rule ccontr)
    assume "\<not> 0 \<le> coefficient current"
    then have "coefficient current * 10 ^ k < 0" by (simp add: mult_less_0_iff)
    with \<open>0 \<le> coefficient current * 10 ^ k\<close> show False by simp
  qed
  have "nat S \<le> nat (coefficient current * 10 ^ k)" using Sle by simp
  also have "\<dots> = nat (coefficient current) * 10 ^ k" using C0 by (simp add: nat_mult_distrib nat_power_eq)
  finally have le: "nat S \<le> nat (coefficient current) * 10 ^ k" .
  have B: "nat (coefficient current) < 10 ^ 20" using C C0 by (simp add: nat_less_iff)
  from fix_then_column [OF S0 le ek B] show ?thesis by (simp add: add)
qed

lemma numeric_20_8_value:
  assumes "numeric_20_8 d = Inr v"
  shows "exponent v = - 8"
    and "\<bar>dval v - dval d\<bar> \<le> 5 / 10 ^ 9"
    and "- 8 \<le> exponent d \<Longrightarrow> dval v = dval d"
proof -
  define c where "c = coefficient d"
  define e where "e = exponent d"
  define m where "m = nat \<bar>c\<bar>"
  define m8 where "m8 = (if - 8 \<le> e then m * 10 ^ nat (e + 8)
                else round_half_up_drop m (nat (- 8 - e)))"
  have v: "v = Decimal (with_sign c m8) (- 8)"
    using assms by (auto simp: numeric_20_8_def Let_def c_def e_def m_def m8_def split: if_splits)
  show "exponent v = - 8" by (simp add: v)
  have sgn: "of_int (with_sign c n) = (if c < 0 then - real n else real n)" for n
    by (simp add: with_sign_def)
  have cm: "real_of_int c = (if c < 0 then - real m else real m)" by (simp add: m_def)
  have exact: "dval v = dval d" if "- 8 \<le> e"
  proof -
    have "(10::real) ^ nat (e + 8) = 10 powi (e + 8)" using that by (simp add: power_int_def)
    moreover have "(10::real) powi (e + 8) * 10 powi (- 8) = 10 powi (e + 8 + (- 8))"
      by (rule power_int_add [symmetric]) simp
    moreover have "e + 8 + (- 8) = e" by simp
    ultimately have "(10::real) ^ nat (e + 8) * 10 powi (- 8) = 10 powi e"
      by (simp only:)
    then have "real (m * 10 ^ nat (e + 8)) * 10 powi (- 8) = real m * 10 powi e"
      by (simp add: mult.assoc)
    then show ?thesis using that
      by (simp add: v dval_def c_def [symmetric] e_def [symmetric] sgn cm m8_def)
  qed
  then show "- 8 \<le> exponent d \<Longrightarrow> dval v = dval d" by (simp add: e_def)
  show "\<bar>dval v - dval d\<bar> \<le> 5 / 10 ^ 9"
  proof (cases "- 8 \<le> e")
    case True
    with exact show ?thesis by simp
  next
    case False
    define k where "k = nat (- 8 - e)"
    define q where "q = m div 10 ^ k"
    define r where "r = m mod 10 ^ k"
    have m: "m = q * 10 ^ k + r" using div_mult_mod_eq [of m "10 ^ k"] by (simp add: q_def r_def)
    have r: "r < 10 ^ k" by (simp add: r_def)
    have m8: "m8 = (if 10 ^ k \<le> 2 * r then q + 1 else q)"
      using False by (simp add: m8_def round_half_up_drop_def Let_def k_def q_def r_def)
    have "\<bar>real m8 * 10 ^ k - real m\<bar> \<le> 10 ^ k / 2"
    proof (cases "10 ^ k \<le> 2 * r")
      case True
      then have "real (10 ^ k) \<le> real (2 * r)" by (simp only: of_nat_le_iff)
      then have a: "(10::real) ^ k \<le> 2 * real r" by simp
      have b: "real r < 10 ^ k" using r by (metis of_nat_less_iff of_nat_numeral of_nat_power)
      have "real m8 * 10 ^ k - real m = 10 ^ k - real r"
        using True by (simp add: m8 m algebra_simps)
      with a b show ?thesis by simp
    next
      case False
      then have "real (2 * r) < real (10 ^ k)" by (simp only: of_nat_less_iff not_le)
      then have a: "2 * real r < 10 ^ k" by simp
      have "real m8 * 10 ^ k - real m = - real r"
        using False by (simp add: m8 m algebra_simps)
      with a show ?thesis by simp
    qed
    moreover have p: "(10::real) powi (- 8) = 10 ^ k * 10 powi e"
    proof -
      have "(10::real) ^ k = 10 powi (- 8 - e)" using False by (simp add: k_def power_int_def)
      moreover have "(10::real) powi (- 8 - e) * 10 powi e = 10 powi (- 8 - e + e)"
        by (rule power_int_add [symmetric]) simp
      ultimately show ?thesis by (simp only: diff_add_cancel)
    qed
    have "\<bar>dval v - dval d\<bar> = \<bar>real m8 * 10 ^ k - real m\<bar> * 10 powi e"
    proof -
      have dv: "dval v = of_int (with_sign c m8) * 10 powi (- 8)"
        by (simp only: v dval_def decimal.sel)
      have dd: "dval d = of_int c * 10 powi e" by (simp only: dval_def c_def e_def)
      have "dval v - dval d = (if c < 0 then - 1 else 1) * (real m8 * 10 ^ k - real m) * 10 powi e"
        unfolding dv dd p by (simp add: sgn cm algebra_simps)
      then show ?thesis by (simp add: abs_mult powi10_pos less_imp_le)
    qed
    ultimately have "\<bar>dval v - dval d\<bar> \<le> 10 ^ k / 2 * 10 powi e"
      by (simp add: mult_right_mono powi10_pos less_imp_le)
    also have "\<dots> = 10 powi (- 8) / 2" unfolding p by simp
    also have "\<dots> = 5 / 10 ^ 9" by (simp add: power_int_minus)
    finally show ?thesis .
  qed
qed

section \<open>The scenario of the specification\<close>

lemma fee_example: "calculate_fee (Decimal 1 (- 1)) (Decimal 5 (- 5)) = Inr (Decimal 5 (- 8))"
  by (simp add: calculate_fee_def dec_eval)

lemma create_alice:
  "CreateMerchantUseCase_execute empty_store ''alice'' ''BTC'' (Decimal 10 (- 1)) t1
   = (Inr \<lparr>m_name = ''alice'', m_created_at = t1\<rparr>,
      \<lparr>merchants = [(''alice'', t1)],
       balances = [((''alice'', ''BTC''), Decimal 100000000 (- 8))],
       transfers = [], transfer_seq = 0, idempotency_keys = []\<rparr>)"
  by (simp add: CreateMerchantUseCase_execute_def empty_store_def repo_eval dec_lt0_def dec_gt0_def)

lemma create_bob:
  "CreateMerchantUseCase_execute
     \<lparr>merchants = [(''alice'', t1)],
       balances = [((''alice'', ''BTC''), Decimal 100000000 (- 8))],
       transfers = [], transfer_seq = 0, idempotency_keys = []\<rparr> ''bob'' ''BTC'' (Decimal 0 0) t2
   = (Inr \<lparr>m_name = ''bob'', m_created_at = t2\<rparr>, alice_bob t1 t2)"
  by (simp add: CreateMerchantUseCase_execute_def alice_bob_def repo_eval dec_lt0_def dec_gt0_def)

lemma scenario_before_eq: "scenario_before t1 t2 = alice_bob t1 t2"
  by (simp add: scenario_before_def create_alice create_bob)

lemma transfer_example:
  "ExecuteTransferUseCase_execute (Decimal 1 (- 1)) (alice_bob t1 t2) ''alice'' ''bob'' ''BTC''
     (Decimal 5 (- 5)) ''k1'' t3
   = (Inr (paid_response t3), paid_store t1 t2 t3)"
  by (simp add: ExecuteTransferUseCase_execute_def alice_bob_def fee_example repo_eval
        response_data_of_def dec_eval paid_response_def paid_store_def)

text \<open>
  C3. In the run where alice is created with 1.0 BTC and bob with 0, under a fee of
  0.1 percent, the transfer of 0.00005 BTC from alice to bob computes the fee
  0.00000005, leaves alice with 0.99994995 BTC and bob with 0.00005 BTC. Bob has no
  balance row before the transfer; the credit creates it. The rows hold the values at
  the 8 fractional digits of their column: 1.00000000 before the transfer, 0.99994995
  and 0.00005000 after it.
\<close>

theorem transfer_scenario:
  "calculate_fee (Decimal 1 (- 1)) (Decimal 5 (- 5)) = Inr (Decimal 5 (- 8))
   \<and> dval (Decimal 5 (- 8)) = 5 / 10 ^ 8
   \<and> map_of (balances (scenario_before t1 t2)) (''alice'', ''BTC'')
       = Some (Decimal 100000000 (- 8))
   \<and> dval (Decimal 100000000 (- 8)) = 1
   \<and> map_of (balances (scenario_before t1 t2)) (''bob'', ''BTC'') = None
   \<and> isl (fst (ExecuteTransferUseCase_execute (Decimal 1 (- 1)) (scenario_before t1 t2)
                  ''alice'' ''bob'' ''BTC'' (Decimal 5 (- 5)) ''k1'' t3)) = False
   \<and> map_of (balances (scenario_after t1 t2 t3)) (''alice'', ''BTC'')
       = Some (Decimal 99994995 (- 8))
   \<and> dval (Decimal 99994995 (- 8)) = 99994995 / 10 ^ 8
   \<and> map_of (balances (scenario_after t1 t2 t3)) (''bob'', ''BTC'') = Some (Decimal 5000 (- 8))
   \<and> dval (Decimal 5000 (- 8)) = 5 / 10 ^ 5"
  by (simp add: scenario_after_def scenario_before_eq transfer_example fee_example)
     (simp add: alice_bob_def paid_store_def dval_def power_int_minus field_simps)

section \<open>Balance mutations\<close>

lemma numeric_20_8_nonneg:
  assumes "numeric_20_8 d = Inr v" and "\<not> dec_lt0 d"
  shows "\<not> dec_lt0 v"
proof -
  from assms(1) obtain m where "v = Decimal (with_sign (coefficient d) m) (- 8)"
    by (auto simp: numeric_20_8_def Let_def split: if_splits)
  with assms(2) show ?thesis by (simp add: dec_lt0_def with_sign_def)
qed





text \<open>
  C9. The credit \<^verbatim>\<open>add_amount\<close> on an existing row does not look at the sign of the
  amount: whatever the amount, it raises ``Balance cannot be negative'' and leaves the
  row as it is exactly when the balance plus the amount is negative. Otherwise the sum
  goes to the \<^verbatim>\<open>Numeric(20, 8)\<close> column, and what the column holds (the sum rounded to
  8 fractional digits) is in the row and in the returned balance. So a negative amount
  is an unguarded debit: on a row that holds a value of the column it succeeds exactly
  when it does not drive the balance below zero (the column cannot overflow then). Only
  when no row exists is a negative amount itself refused; a non-negative one then
  creates the row.
\<close>

theorem add_amount_cases:
  "(map_of (balances s) (nm, cur) = Some current \<and> cur \<noteq> [] \<longrightarrow>
      (if dval current + dval amount < 0
       then BalanceRepository_add_amount s nm cur amount
              = (Inl (ValueError ''Balance cannot be negative''), s)
       else (case numeric_20_8 (dec_add current amount) of
               Inl e \<Rightarrow> BalanceRepository_add_amount s nm cur amount = (Inl e, s)
             | Inr stored \<Rightarrow>
                 BalanceRepository_add_amount s nm cur amount
                 = (Inr \<lparr>b_merchant_name = nm, b_currency = cur, b_amount = stored\<rparr>,
                    s\<lparr>balances := AList.update (nm, cur) stored (balances s)\<rparr>))))
   \<and> (map_of (balances s) (nm, cur) = Some current \<and> cur \<noteq> [] \<and> exponent current = - 8
        \<and> coefficient current < 10 ^ 20 \<and> dec_lt0 amount \<and> 0 \<le> dval current + dval amount \<longrightarrow>
      (\<exists>stored. numeric_20_8 (dec_add current amount) = Inr stored
         \<and> exponent stored = - 8
         \<and> \<bar>dval stored - dval (dec_add current amount)\<bar> \<le> 5 / 10 ^ 9
         \<and> BalanceRepository_add_amount s nm cur amount
             = (Inr \<lparr>b_merchant_name = nm, b_currency = cur, b_amount = stored\<rparr>,
                s\<lparr>balances := AList.update (nm, cur) stored (balances s)\<rparr>)))
   \<and> (map_of (balances s) (nm, cur) = None \<longrightarrow>
      (if dec_lt0 amount
       then BalanceRepository_add_amount s nm cur amount
              = (Inl (ValueError ''Balance cannot be negative''), s)
       else (case numeric_20_8 amount of
               Inl e \<Rightarrow> BalanceRepository_add_amount s nm cur amount = (Inl e, s)
             | Inr stored \<Rightarrow>
                 snd (BalanceRepository_add_amount s nm cur amount)
                 = s\<lparr>balances := balances s @ [((nm, cur), stored)]\<rparr>)))"
proof -
  have c1: "(if dval current + dval amount < 0
       then BalanceRepository_add_amount s nm cur amount
              = (Inl (ValueError ''Balance cannot be negative''), s)
       else (case numeric_20_8 (dec_add current amount) of
               Inl e \<Rightarrow> BalanceRepository_add_amount s nm cur amount = (Inl e, s)
             | Inr stored \<Rightarrow>
                 BalanceRepository_add_amount s nm cur amount
                 = (Inr \<lparr>b_merchant_name = nm, b_currency = cur, b_amount = stored\<rparr>,
                    s\<lparr>balances := AList.update (nm, cur) stored (balances s)\<rparr>)))"
    if "map_of (balances s) (nm, cur) = Some current" "cur \<noteq> []"
  proof (cases "dval current + dval amount < 0")
    case True
    with that show ?thesis
      by (simp add: BalanceRepository_add_amount_def Let_def dec_add_lt0)
  next
    case False
    then have nn: "\<not> dec_lt0 (dec_add current amount)" by (simp add: dec_add_lt0)
    show ?thesis
    proof (cases "numeric_20_8 (dec_add current amount)")
      case (Inl e)
      with that nn False show ?thesis by (simp add: BalanceRepository_add_amount_def Let_def)
    next
      case (Inr stored)
      with that nn False numeric_20_8_nonneg [OF Inr nn] show ?thesis
        by (simp add: BalanceRepository_add_amount_def Let_def Balance_def)
    qed
  qed
  have c2: "\<exists>stored. numeric_20_8 (dec_add current amount) = Inr stored
         \<and> exponent stored = - 8
         \<and> \<bar>dval stored - dval (dec_add current amount)\<bar> \<le> 5 / 10 ^ 9
         \<and> BalanceRepository_add_amount s nm cur amount
             = (Inr \<lparr>b_merchant_name = nm, b_currency = cur, b_amount = stored\<rparr>,
                s\<lparr>balances := AList.update (nm, cur) stored (balances s)\<rparr>)"
    if "map_of (balances s) (nm, cur) = Some current" "cur \<noteq> []" "exponent current = - 8"
       "coefficient current < 10 ^ 20" "dec_lt0 amount" "0 \<le> dval current + dval amount"
  proof -
    have nn: "\<not> dec_lt0 (dec_add current amount)" using that(6) by (simp add: dec_add_lt0)
    have "coefficient amount \<le> 0" using that(5) by (simp add: dec_lt0_def)
    from column_no_overflow [OF that(3,4) this nn] obtain stored
      where st: "numeric_20_8 (dec_add current amount) = Inr stored" by blast
    from c1 [OF that(1,2)] that(6) st numeric_20_8_value(1,2) [OF st] show ?thesis by simp
  qed
  have c3: "(if dec_lt0 amount
       then BalanceRepository_add_amount s nm cur amount
              = (Inl (ValueError ''Balance cannot be negative''), s)
       else (case numeric_20_8 amount of
               Inl e \<Rightarrow> BalanceRepository_add_amount s nm cur amount = (Inl e, s)
             | Inr stored \<Rightarrow>
                 snd (BalanceRepository_add_amount s nm cur amount)
                 = s\<lparr>balances := balances s @ [((nm, cur), stored)]\<rparr>))"
    if "map_of (balances s) (nm, cur) = None"
    using that by (simp add: BalanceRepository_add_amount_def split: sum.splits)
  from c1 c2 c3 show ?thesis by blast
qed

theorem add_amount_cases_witness:
  "BalanceRepository_add_amount example_balances ''alice'' ''BTC'' (Decimal (- 5) (- 1))
     = (Inr \<lparr>b_merchant_name = ''alice'', b_currency = ''BTC'',
             b_amount = Decimal 50000000 (- 8)\<rparr>,
        example_balances\<lparr>balances := [((''alice'', ''BTC''), Decimal 50000000 (- 8))]\<rparr>)
   \<and> BalanceRepository_add_amount example_balances ''alice'' ''BTC'' (Decimal (- 2) 0)
     = (Inl (ValueError ''Balance cannot be negative''), example_balances)
   \<and> BalanceRepository_add_amount example_balances ''bob'' ''BTC'' (Decimal (- 1) 0)
     = (Inl (ValueError ''Balance cannot be negative''), example_balances)
   \<and> snd (BalanceRepository_add_amount example_balances ''bob'' ''BTC'' (Decimal 5 (- 5)))
     = example_balances\<lparr>balances := [((''alice'', ''BTC''), Decimal 100000000 (- 8)),
                                       ((''bob'', ''BTC''), Decimal 5000 (- 8))]\<rparr>"
  using add_amount_cases [where s = example_balances and nm = "''alice''" and cur = "''BTC''"
          and amount = "Decimal (- 5) (- 1)" and current = "Decimal 100000000 (- 8)"]
        add_amount_cases [where s = example_balances and nm = "''alice''" and cur = "''BTC''"
          and amount = "Decimal (- 2) 0" and current = "Decimal 100000000 (- 8)"]
        add_amount_cases [where s = example_balances and nm = "''bob''" and cur = "''BTC''"
          and amount = "Decimal (- 1) 0" and current = "Decimal 0 0"]
        add_amount_cases [where s = example_balances and nm = "''bob''" and cur = "''BTC''"
          and amount = "Decimal 5 (- 5)" and current = "Decimal 0 0"]
  by (simp add: example_balances_def dec_eval numeric_20_8_def round_half_up_drop_def
        dval_def power_int_minus)

section \<open>Listing transfers\<close>

text \<open>
  C10. In \<^verbatim>\<open>list_transfers\<close> a filter that is the empty string is treated as an absent
  filter: the where-clause is skipped, so the result is the one of the call without
  that filter. This holds for each of the three filters, in the use case and in the
  repository.
\<close>

theorem list_transfers_empty_filter:
  "ListTransfersUseCase_execute s (Some []) to_merchant currency limit offset
     = ListTransfersUseCase_execute s None to_merchant currency limit offset
   \<and> ListTransfersUseCase_execute s from_merchant (Some []) currency limit offset
     = ListTransfersUseCase_execute s from_merchant None currency limit offset
   \<and> ListTransfersUseCase_execute s from_merchant to_merchant (Some []) limit offset
     = ListTransfersUseCase_execute s from_merchant to_merchant None limit offset
   \<and> TransferRepository_list s (Some []) (Some []) (Some []) limit offset
     = TransferRepository_list s None None None limit offset"
  by (simp add: ListTransfersUseCase_execute_def TransferRepository_list_def truthy_def)

section \<open>The transfer use case\<close>

lemma map_of_append_None: "map_of xs k = None \<Longrightarrow> map_of (xs @ [(k, v)]) k = Some v"
  by (simp add: map_add_def map_of_append)

lemma subtract_amount_success:
  "BalanceRepository_subtract_amount s nm cur amount = (Inr b, s1) \<Longrightarrow>
   transfers s1 = transfers s \<and> transfer_seq s1 = transfer_seq s
   \<and> idempotency_keys s1 = idempotency_keys s"
  by (auto simp: BalanceRepository_subtract_amount_def Let_def Balance_def
           split: option.splits if_splits sum.splits)

lemma add_amount_success:
  "BalanceRepository_add_amount s nm cur amount = (Inr b, s1) \<Longrightarrow>
   transfers s1 = transfers s \<and> transfer_seq s1 = transfer_seq s
   \<and> idempotency_keys s1 = idempotency_keys s"
  by (auto simp: BalanceRepository_add_amount_def Let_def Balance_def
           split: option.splits if_splits sum.splits)

lemma transfer_create_success:
  "TransferRepository_create s t0 = (Inr t, s1) \<Longrightarrow>
   t_idempotency_key t0 \<notin> set (map tm_idempotency_key (transfers s))
   \<and> (\<exists>row. transfers s1 = transfers s @ [row] \<and> tm_idempotency_key row = t_idempotency_key t0)
   \<and> t_id t = Some (transfer_seq s + 1) \<and> t_created_at t = t_created_at t0
   \<and> idempotency_keys s1 = idempotency_keys s"
  by (auto simp: TransferRepository_create_def Let_def transfer_of_model_def Transfer_def
           split: sum.splits if_splits)

lemma idempotency_store_success:
  "IdempotencyRepository_store s key i r = (Inr u, s1) \<Longrightarrow>
   idempotency_keys s1 = idempotency_keys s @ [(key, i, r)] \<and> transfers s1 = transfers s"
  by (auto simp: IdempotencyRepository_store_def split: if_splits)

lemma execute_success_shape:
  assumes "IdempotencyRepository_get s key = None"
      and "ExecuteTransferUseCase_execute fp s frm to cur amt key now = (Inr r, s')"
  shows "(case calculate_fee fp amt of
            Inl e \<Rightarrow> False
          | Inr fee \<Rightarrow>
              r = [(''transfer_id'', JInt (transfer_seq s + 1)),
                   (''from_merchant'', JStr frm), (''to_merchant'', JStr to),
                   (''currency'', JStr cur), (''amount'', JStr (str_decimal amt)),
                   (''fee'', JStr (str_decimal fee)), (''created_at'', JIso now)])
         \<and> (\<exists>row. transfers s' = transfers s @ [row] \<and> tm_idempotency_key row = key)
         \<and> key \<notin> set (map tm_idempotency_key (transfers s))
         \<and> idempotency_keys s' = idempotency_keys s @ [(key, transfer_seq s + 1, r)]"
proof -
  from assms obtain fee b1 s1 b2 s2 t0 t s3 u where
    fee: "calculate_fee fp amt = Inr fee"
    and sub: "BalanceRepository_subtract_amount s frm cur (dec_add amt fee) = (Inr b1, s1)"
    and add: "BalanceRepository_add_amount s1 to cur amt = (Inr b2, s2)"
    and t0: "Transfer None frm to cur amt fee key now = Inr t0"
    and cr: "TransferRepository_create s2 t0 = (Inr t, s3)"
    and st: "IdempotencyRepository_store s3 key (the (t_id t))
               (response_data_of t frm to cur amt fee) = (Inr u, s')"
    and r: "r = response_data_of t frm to cur amt fee" and tid: "t_id t \<noteq> None"
    unfolding ExecuteTransferUseCase_execute_def Let_def
    by (simp split: sum.splits option.splits prod.splits if_splits)
  have t0k: "t_idempotency_key t0 = key" "t_created_at t0 = now"
    using t0 by (auto simp: Transfer_def split: if_splits)
  from subtract_amount_success [OF sub] add_amount_success [OF add]
    transfer_create_success [OF cr] idempotency_store_success [OF st] t0k fee
  show ?thesis by (auto simp: r response_data_of_def)
qed

lemma filter_key_absent:
  "key \<notin> set (map tm_idempotency_key rows) \<Longrightarrow> filter (\<lambda>r. tm_idempotency_key r = key) rows = []"
  by (induction rows) auto

lemma lower_insufficient:
  "sublist ''insufficient'' (lower (''Insufficient funds: '' @ rest))"
proof -
  have "lower (''Insufficient funds: '' @ rest) = ''insufficient'' @ ('' funds: '' @ lower rest)"
    by (simp add: lower_def lower_char_def)
  then show ?thesis by (simp only: sublist_append_rightI)
qed

text \<open>
  C1. When a call of \<^verbatim>\<open>execute\<close> with a key that has no idempotency record
  succeeds (so it stores a response snapshot), every later call with that key, whatever
  its payload, fee percentage or time, returns exactly that snapshot and leaves the store
  as it is: no validation, fee computation, balance mutation or insertion takes place.
  After the first call, and after the second, exactly one transfer row carries the key.
\<close>

theorem idempotent_replay:
  assumes "IdempotencyRepository_get s key = None"
      and "ExecuteTransferUseCase_execute fp s frm to cur amt key now = (Inr r, s')"
  shows "IdempotencyRepository_get s' key = Some r
       \<and> ExecuteTransferUseCase_execute fp' s' frm' to' cur' amt' key now' = (Inr r, s')
       \<and> transfers_with_key s' key = 1
       \<and> transfers_with_key
            (snd (ExecuteTransferUseCase_execute fp' s' frm' to' cur' amt' key now')) key = 1"
proof -
  from execute_success_shape [OF assms] obtain fee row where
    fee: "calculate_fee fp amt = Inr fee"
    and r: "r = [(''transfer_id'', JInt (transfer_seq s + 1)),
                   (''from_merchant'', JStr frm), (''to_merchant'', JStr to),
                   (''currency'', JStr cur), (''amount'', JStr (str_decimal amt)),
                   (''fee'', JStr (str_decimal fee)), (''created_at'', JIso now)]"
    and tr: "transfers s' = transfers s @ [row]" "tm_idempotency_key row = key"
    and fresh: "key \<notin> set (map tm_idempotency_key (transfers s))"
    and ik: "idempotency_keys s' = idempotency_keys s @ [(key, transfer_seq s + 1, r)]"
    by (auto split: sum.splits)
  have none: "map_of (idempotency_keys s) key = None"
    using assms(1) by (auto simp: IdempotencyRepository_get_def split: option.splits)
  have get: "IdempotencyRepository_get s' key = Some r"
    using map_of_append_None [OF none, of "(transfer_seq s + 1, r)"]
    by (simp add: IdempotencyRepository_get_def ik del: map_of_append)
  have nonempty: "r \<noteq> []" by (simp add: r)
  have replay: "ExecuteTransferUseCase_execute fp' s' frm' to' cur' amt' key now' = (Inr r, s')"
    by (simp add: ExecuteTransferUseCase_execute_def get nonempty)
  have one: "transfers_with_key s' key = 1"
    by (simp add: transfers_with_key_def tr filter_key_absent [OF fresh])
  show ?thesis using get replay one by simp
qed

theorem idempotent_replay_witness:
  "IdempotencyRepository_get (alice_bob 1 2) ''k1'' = None
   \<and> ExecuteTransferUseCase_execute (Decimal 1 (- 1)) (alice_bob 1 2) ''alice'' ''bob'' ''BTC''
        (Decimal 5 (- 5)) ''k1'' 3 = (Inr (paid_response 3), paid_store 1 2 3)
   \<and> ExecuteTransferUseCase_execute (Decimal 1 (- 1)) (paid_store 1 2 3) ''bob'' ''carol'' ''EUR''
        (Decimal (- 7) 0) ''k1'' 4 = (Inr (paid_response 3), paid_store 1 2 3)
   \<and> transfers_with_key (paid_store 1 2 3) ''k1'' = 1"
proof -
  have h1: "IdempotencyRepository_get (alice_bob 1 2) ''k1'' = None"
    by (simp add: IdempotencyRepository_get_def alice_bob_def)
  show ?thesis
    using h1 idempotent_replay [OF h1 transfer_example, of 3 "Decimal 1 (- 1)" "''bob''"
        "''carol''" "''EUR''" "Decimal (- 7) 0" 4]
    by (simp add: transfer_example)
qed

lemma reraise_insufficient:
  "reraise (ValueError (''Insufficient funds: '' @ rest)) total_debit cur fee
   = InsufficientFundsError
       (''Insufficient funds. Required: '' @ str_decimal total_debit @ '' '' @ cur
        @ '', including fee: '' @ str_decimal fee @ '' '' @ cur)"
  using lower_insufficient [of rest] by (simp add: reraise_def)

lemma fee_rounding_example:
  "calculate_fee (Decimal 1 (- 1)) (Decimal 9999000000000000000000000004 (- 27))
   = Inr (Decimal 999900 (- 8))"
  by (simp add: calculate_fee_def dec_eval)

lemma total_debit_rounding_example:
  "dec_add (Decimal 9999000000000000000000000004 (- 27)) (Decimal 999900 (- 8))
   = Decimal 1000899900000000000000000000 (- 26)"
  by (simp add: dec_eval)

lemma fee2: "calculate_fee (Decimal 1 (- 1)) (Decimal 2 0) = Inr (Decimal 200000 (- 8))"
  by (simp add: calculate_fee_def dec_eval)

lemma total2: "dec_add (Decimal 2 0) (Decimal 200000 (- 8)) = Decimal 200200000 (- 8)"
  by (simp add: dec_eval)

lemma str2:
  "str_decimal (Decimal 200200000 (- 8)) = ''2.00200000''"
  "str_decimal (Decimal 200000 (- 8)) = ''0.00200000''"
  by (simp_all add: dec_eval)

lemma rounding_debit_example:
  "dec_sub (Decimal 1000899900 (- 8)) (Decimal 1000899900000000000000000000 (- 26))
   = Decimal 0 (- 26)"
  by (simp add: dec_eval)

lemma rounding_column_example:
  "numeric_20_8 (Decimal 0 (- 26)) = Inr (Decimal 0 (- 8))"
  "numeric_20_8 (Decimal 9999000000000000000000000004 (- 27)) = Inr (Decimal 999900000 (- 8))"
  "numeric_20_8 (Decimal 999900 (- 8)) = Inr (Decimal 999900 (- 8))"
  by (simp_all add: numeric_20_8_def round_half_up_drop_def with_sign_def)

lemma rounding_balance_below:
  "dval (Decimal 1000899900 (- 8))
   < dval (Decimal 9999000000000000000000000004 (- 27)) + dval (Decimal 999900 (- 8))"
  by (simp add: dval_def power_int_minus field_simps)

lemma k2_unused: "IdempotencyRepository_get (alice_bob 1 2) ''k2'' = None"
  by (simp add: IdempotencyRepository_get_def alice_bob_def)

lemma alice_exists:
  "MerchantRepository_get_by_name (alice_bob 1 2) ''alice''
   = Inr (Some \<lparr>m_name = ''alice'', m_created_at = 1\<rparr>)"
  by (simp add: repo_defs alice_bob_def)

lemma bob_exists:
  "MerchantRepository_get_by_name (alice_bob 1 2) ''bob''
   = Inr (Some \<lparr>m_name = ''bob'', m_created_at = 2\<rparr>)"
  by (simp add: repo_defs alice_bob_def)

lemma alice_btc_low:
  "map_of (balances (alice_bob 1 2)) (''alice'', ''BTC'') = None
   \<or> (\<exists>bal. map_of (balances (alice_bob 1 2)) (''alice'', ''BTC'') = Some bal
              \<and> dval bal < dval (dec_add (Decimal 2 0) (Decimal 200000 (- 8))))"
  by (simp add: alice_bob_def total2 dval_def power_int_minus)

lemma alice_eur_absent:
  "map_of (balances (alice_bob 1 2)) (''alice'', ''EUR'') = None
   \<or> (\<exists>bal. map_of (balances (alice_bob 1 2)) (''alice'', ''EUR'') = Some bal
              \<and> dval bal < dval (dec_add (Decimal 2 0) (Decimal 200000 (- 8))))"
  by (simp add: alice_bob_def)

lemma alice_not_bob: "''alice'' \<noteq> ''bob''"
  by simp

lemma two_positive: "dec_gt0 (Decimal 2 0)"
  by (simp add: dec_gt0_def)

lemma huge_amount_example:
  "ExecuteTransferUseCase_execute (Decimal 1 (- 1)) (alice_bob 1 2) ''alice'' ''bob''
     ''BTC'' (Decimal 1 25) ''k2'' 3 = (Inl InvalidOperation, alice_bob 1 2)"
  by (simp add: ExecuteTransferUseCase_execute_def alice_bob_def repo_defs fee_too_large
        dec_le0_def)

lemma str3:
  "str_decimal (Decimal 9999000000000000000000000004 (- 27)) = ''9.999000000000000000000000004''"
  "str_decimal (Decimal 999900 (- 8)) = ''0.00999900''"
  by (simp_all add: dec_eval)

lemma rounding_transfer:
  "ExecuteTransferUseCase_execute (Decimal 1 (- 1)) rounding_store ''alice'' ''bob''
             ''BTC'' (Decimal 9999000000000000000000000004 (- 27)) ''k2'' 3
   = (Inr [(''transfer_id'', JInt 1), (''from_merchant'', JStr ''alice''),
           (''to_merchant'', JStr ''bob''), (''currency'', JStr ''BTC''),
           (''amount'', JStr ''9.999000000000000000000000004''),
           (''fee'', JStr ''0.00999900''), (''created_at'', JIso 3)],
      \<lparr>merchants = [(''alice'', 1), (''bob'', 2)],
       balances = [((''alice'', ''BTC''), Decimal 0 (- 8)),
                   ((''bob'', ''BTC''), Decimal 999900000 (- 8))],
       transfers = [\<lparr>tm_id = 1, tm_from_merchant = ''alice'', tm_to_merchant = ''bob'',
                     tm_currency = ''BTC'',
                     tm_amount = Decimal 999900000 (- 8),
                     tm_fee = Decimal 999900 (- 8),
                     tm_idempotency_key = ''k2'', tm_created_at = 3\<rparr>],
       transfer_seq = 1,
       idempotency_keys =
         [(''k2'', 1, [(''transfer_id'', JInt 1), (''from_merchant'', JStr ''alice''),
           (''to_merchant'', JStr ''bob''), (''currency'', JStr ''BTC''),
           (''amount'', JStr ''9.999000000000000000000000004''),
           (''fee'', JStr ''0.00999900''), (''created_at'', JIso 3)])]\<rparr>)"
  by (simp add: ExecuteTransferUseCase_execute_def rounding_store_def repo_defs
        fee_rounding_example total_debit_rounding_example rounding_debit_example
        rounding_column_example str3 response_data_of_def dec_le0_def dec_lt0_def Let_def)

text \<open>
  C2, as amended. A call of \<^verbatim>\<open>execute\<close> that reaches the debit (the key has no
  idempotency record, both merchants exist and differ, the amount is positive and the
  fee is computed) and whose sender has no balance row for the currency, or a balance
  below the total debit \<open>amount + fee\<close> as the decimal addition computes it, raises
  \<open>InsufficientFundsError\<close> and leaves the whole store as it is, before and after the
  rollback of \<^verbatim>\<open>get_db\<close>: no balance changes, no transfer row and no idempotency
  record is created.
\<close>

theorem insufficient_funds_no_effect:
  assumes "IdempotencyRepository_get s key = None"
      and "MerchantRepository_get_by_name s frm = Inr (Some m1)"
      and "MerchantRepository_get_by_name s to = Inr (Some m2)"
      and "frm \<noteq> to" and "dec_gt0 amt"
      and "calculate_fee fp amt = Inr fee"
      and "map_of (balances s) (frm, cur) = None
           \<or> (\<exists>bal. map_of (balances s) (frm, cur) = Some bal
                      \<and> dval bal < dval (dec_add amt fee))"
  shows "ExecuteTransferUseCase_execute fp s frm to cur amt key now
         = (Inl (InsufficientFundsError
                  (''Insufficient funds. Required: '' @ str_decimal (dec_add amt fee) @ '' '' @ cur
                   @ '', including fee: '' @ str_decimal fee @ '' '' @ cur)), s)
       \<and> fst (get_db (\<lambda>s. ExecuteTransferUseCase_execute fp s frm to cur amt key now) s)
         = Inl (InsufficientFundsError
                  (''Insufficient funds. Required: '' @ str_decimal (dec_add amt fee) @ '' '' @ cur
                   @ '', including fee: '' @ str_decimal fee @ '' '' @ cur))
       \<and> snd (get_db (\<lambda>s. ExecuteTransferUseCase_execute fp s frm to cur amt key now) s) = s"
proof -
  have sub: "BalanceRepository_subtract_amount s frm cur (dec_add amt fee)
             = (Inl (ValueError (''Insufficient funds: '' @
                   (if map_of (balances s) (frm, cur) = None
                    then ''no balance found for '' @ frm @ '' in '' @ cur
                    else ''balance would become negative. Current: ''
                         @ str_decimal (the (map_of (balances s) (frm, cur)))
                         @ '', Required: '' @ str_decimal (dec_add amt fee)))), s)"
    using assms(7)
    by (auto simp: BalanceRepository_subtract_amount_def Let_def dec_sub_lt0)
  have main: "ExecuteTransferUseCase_execute fp s frm to cur amt key now
         = (Inl (InsufficientFundsError
                  (''Insufficient funds. Required: '' @ str_decimal (dec_add amt fee) @ '' '' @ cur
                   @ '', including fee: '' @ str_decimal fee @ '' '' @ cur)), s)"
    using assms(1-6)
    by (simp add: ExecuteTransferUseCase_execute_def Let_def sub reraise_insufficient
          dec_gt0_def dec_le0_def del: append.simps)
  then show ?thesis by (simp add: get_db_def)
qed

theorem insufficient_funds_no_effect_witness:
  "ExecuteTransferUseCase_execute (Decimal 1 (- 1)) (alice_bob 1 2) ''alice'' ''bob'' ''BTC''
     (Decimal 2 0) ''k2'' 3
   = (Inl (InsufficientFundsError
             ''Insufficient funds. Required: 2.00200000 BTC, including fee: 0.00200000 BTC''),
      alice_bob 1 2)
   \<and> ExecuteTransferUseCase_execute (Decimal 1 (- 1)) (alice_bob 1 2) ''alice'' ''bob'' ''EUR''
     (Decimal 2 0) ''k2'' 3
   = (Inl (InsufficientFundsError
             ''Insufficient funds. Required: 2.00200000 EUR, including fee: 0.00200000 EUR''),
      alice_bob 1 2)"
  using insufficient_funds_no_effect [OF k2_unused alice_exists bob_exists alice_not_bob
          two_positive fee2 alice_btc_low, where now = 3]
        insufficient_funds_no_effect [OF k2_unused alice_exists bob_exists alice_not_bob
          two_positive fee2 alice_eur_absent, where now = 3]
  by (simp only: total2 str2 append.simps simp_thms)

text \<open>
  The claim as stated fails in two ways. With 1 BTC, a transfer of \<open>1E+25\<close> BTC raises
  the decimal module's \<open>InvalidOperation\<close> in the fee computation (the quantized fee
  would need 31 digits), not \<open>InsufficientFundsError\<close>. With 10.00899900 BTC, a
  transfer of 9.999000000000000000000000004 BTC has the fee 0.00999900 and an exact
  total of 10.008999000000000000000000004, above the balance; the decimal sum is rounded
  to 28 digits, 10.00899900000000000000000000, and the transfer succeeds: the rows
  then hold \<open>0E-8\<close> for alice and 9.99900000 for bob.
\<close>

theorem insufficient_funds_counterexample:
  "map_of (balances (alice_bob 1 2)) (''alice'', ''BTC'') = Some (Decimal 100000000 (- 8))
   \<and> dval (Decimal 100000000 (- 8)) < dval (Decimal 1 25)
   \<and> ExecuteTransferUseCase_execute (Decimal 1 (- 1)) (alice_bob 1 2) ''alice'' ''bob'' ''BTC''
        (Decimal 1 25) ''k2'' 3
      = (Inl InvalidOperation, alice_bob 1 2)
   \<and> map_of (balances rounding_store) (''alice'', ''BTC'') = Some (Decimal 1000899900 (- 8))
   \<and> calculate_fee (Decimal 1 (- 1)) (Decimal 9999000000000000000000000004 (- 27))
      = Inr (Decimal 999900 (- 8))
   \<and> dval (Decimal 1000899900 (- 8))
      < dval (Decimal 9999000000000000000000000004 (- 27)) + dval (Decimal 999900 (- 8))
   \<and> isl (fst (ExecuteTransferUseCase_execute (Decimal 1 (- 1)) rounding_store ''alice'' ''bob''
                  ''BTC'' (Decimal 9999000000000000000000000004 (- 27)) ''k2'' 3)) = False
   \<and> balances (snd (ExecuteTransferUseCase_execute (Decimal 1 (- 1)) rounding_store ''alice''
                  ''bob'' ''BTC'' (Decimal 9999000000000000000000000004 (- 27)) ''k2'' 3))
      = [((''alice'', ''BTC''), Decimal 0 (- 8)),
         ((''bob'', ''BTC''), Decimal 999900000 (- 8))]"
proof -
  have 3: "map_of (balances (alice_bob 1 2)) (''alice'', ''BTC'') = Some (Decimal 100000000 (- 8))"
    by (simp add: alice_bob_def)
  have 4: "dval (Decimal 100000000 (- 8)) < dval (Decimal 1 25)"
    by (simp add: dval_def power_int_minus)
  have 6: "map_of (balances rounding_store) (''alice'', ''BTC'') = Some (Decimal 1000899900 (- 8))"
    by (simp add: rounding_store_def)
  have 9: "isl (fst (ExecuteTransferUseCase_execute (Decimal 1 (- 1)) rounding_store ''alice''
                  ''bob'' ''BTC'' (Decimal 9999000000000000000000000004 (- 27)) ''k2'' 3)) = False"
    by (simp only: rounding_transfer fst_conv sum.disc)
  have 10: "balances (snd (ExecuteTransferUseCase_execute (Decimal 1 (- 1)) rounding_store ''alice''
                  ''bob'' ''BTC'' (Decimal 9999000000000000000000000004 (- 27)) ''k2'' 3))
      = [((''alice'', ''BTC''), Decimal 0 (- 8)),
         ((''bob'', ''BTC''), Decimal 999900000 (- 8))]"
    by (simp only: rounding_transfer snd_conv store.simps)
  from 3 4 huge_amount_example 6 fee_rounding_example rounding_balance_below 9 10
  show ?thesis by blast
qed

section \<open>Balance queries and merchant creation\<close>

text \<open>
  C7, as amended. \<^verbatim>\<open>get_balance\<close> for a merchant name that does not exist raises
  \<open>MerchantNotFoundError\<close>, whatever the currency argument. For an existing merchant
  and a non-empty currency it returns the amount \<^verbatim>\<open>"0"\<close> when there is no balance row
  for the pair, and the row's amount (its decimal rendered by \<^verbatim>\<open>str\<close>) when there is
  one. The empty string as currency is treated like an absent currency: the call
  returns what the call without currency returns, which for an existing merchant is
  the list of all balances. The merchant row and the balance row are stored rows: they
  pass the checks of their entities (non-empty name, amount not negative).
\<close>

theorem get_balance_cases:
  "(map_of (merchants s) nm = None \<longrightarrow>
      GetBalanceUseCase_execute s nm currency
        = Inl (MerchantNotFoundError (''Merchant '' @ quoted nm @ '' not found'')))
   \<and> (map_of (merchants s) nm = Some created \<and> nm \<noteq> [] \<and> cur \<noteq> []
        \<and> map_of (balances s) (nm, cur) = None \<longrightarrow>
      GetBalanceUseCase_execute s nm (Some cur)
        = Inr [(''merchant_name'', JStr nm), (''currency'', JStr cur), (''amount'', JStr ''0'')])
   \<and> (map_of (merchants s) nm = Some created \<and> nm \<noteq> [] \<and> cur \<noteq> []
        \<and> map_of (balances s) (nm, cur) = Some amt \<and> \<not> dec_lt0 amt \<longrightarrow>
      GetBalanceUseCase_execute s nm (Some cur)
        = Inr [(''merchant_name'', JStr nm), (''currency'', JStr cur),
               (''amount'', JStr (str_decimal amt))])
   \<and> GetBalanceUseCase_execute s nm (Some []) = GetBalanceUseCase_execute s nm None
   \<and> (map_of (merchants s) nm = Some created \<and> nm \<noteq> []
        \<and> BalanceRepository_get_all_for_merchant s nm = Inr bs \<longrightarrow>
      GetBalanceUseCase_execute s nm (Some [])
        = Inr [(''merchant_name'', JStr nm), (''balances'', JList (map balance_json bs))])"
  by (simp add: GetBalanceUseCase_execute_def MerchantRepository_get_by_name_def Merchant_def
        BalanceRepository_get_def Balance_def truthy_def)

lemma str_one: "str_decimal (Decimal 100000000 (- 8)) = ''1.00000000''"
  by (simp add: dec_eval)

lemma alice_balances:
  "BalanceRepository_get_all_for_merchant (alice_bob t1 t2) ''alice''
   = Inr [\<lparr>b_merchant_name = ''alice'', b_currency = ''BTC'',
            b_amount = Decimal 100000000 (- 8)\<rparr>]"
  by (simp add: BalanceRepository_get_all_for_merchant_def alice_bob_def Balance_def dec_lt0_def)

theorem get_balance_cases_witness:
  "GetBalanceUseCase_execute (alice_bob 1 2) ''carol'' (Some ''BTC'')
     = Inl (MerchantNotFoundError (''Merchant '' @ quoted ''carol'' @ '' not found''))
   \<and> GetBalanceUseCase_execute (alice_bob 1 2) ''bob'' (Some ''BTC'')
     = Inr [(''merchant_name'', JStr ''bob''), (''currency'', JStr ''BTC''), (''amount'', JStr ''0'')]
   \<and> GetBalanceUseCase_execute (alice_bob 1 2) ''alice'' (Some ''BTC'')
     = Inr [(''merchant_name'', JStr ''alice''), (''currency'', JStr ''BTC''),
            (''amount'', JStr ''1.00000000'')]
   \<and> GetBalanceUseCase_execute (alice_bob 1 2) ''alice'' (Some '''')
     = Inr [(''merchant_name'', JStr ''alice''),
            (''balances'', JList [JObject [(''currency'', JStr ''BTC''),
                                           (''amount'', JStr ''1.00000000'')]])]
   \<and> GetBalanceUseCase_execute (alice_bob 1 2) ''alice'' None
     = Inr [(''merchant_name'', JStr ''alice''),
            (''balances'', JList [JObject [(''currency'', JStr ''BTC''),
                                           (''amount'', JStr ''1.00000000'')]])]"
proof -
  note carol = get_balance_cases [where s = "alice_bob 1 2" and nm = "''carol''"
          and currency = "Some ''BTC''" and cur = "''BTC''" and created = 0 and amt = "Decimal 0 0"
          and bs = "[]"]
  note bob = get_balance_cases [where s = "alice_bob 1 2" and nm = "''bob''"
          and currency = "Some ''BTC''" and cur = "''BTC''" and created = 2 and amt = "Decimal 0 0"
          and bs = "[]"]
  note alice = get_balance_cases [where s = "alice_bob 1 2" and nm = "''alice''"
          and currency = "Some ''BTC''" and cur = "''BTC''" and created = 1
          and amt = "Decimal 100000000 (- 8)"
          and bs = "[\<lparr>b_merchant_name = ''alice'', b_currency = ''BTC'',
                        b_amount = Decimal 100000000 (- 8)\<rparr>]"]
  have 1: "GetBalanceUseCase_execute (alice_bob 1 2) ''carol'' (Some ''BTC'')
     = Inl (MerchantNotFoundError (''Merchant '' @ quoted ''carol'' @ '' not found''))"
    using carol by (simp add: alice_bob_def)
  have 2: "GetBalanceUseCase_execute (alice_bob 1 2) ''bob'' (Some ''BTC'')
     = Inr [(''merchant_name'', JStr ''bob''), (''currency'', JStr ''BTC''), (''amount'', JStr ''0'')]"
    using bob by (simp add: alice_bob_def)
  have 3: "GetBalanceUseCase_execute (alice_bob 1 2) ''alice'' (Some ''BTC'')
     = Inr [(''merchant_name'', JStr ''alice''), (''currency'', JStr ''BTC''),
            (''amount'', JStr ''1.00000000'')]"
    using alice by (simp add: alice_bob_def str_one dec_lt0_def)
  have m: "map_of (merchants (alice_bob 1 2)) ''alice'' = Some 1" by (simp add: alice_bob_def)
  have 4: "GetBalanceUseCase_execute (alice_bob 1 2) ''alice'' (Some '''')
     = Inr [(''merchant_name'', JStr ''alice''),
            (''balances'', JList [JObject [(''currency'', JStr ''BTC''),
                                           (''amount'', JStr ''1.00000000'')]])]"
  proof -
    have ne: "''alice'' \<noteq> []" by simp
    from alice m ne alice_balances [of 1 2]
    have "GetBalanceUseCase_execute (alice_bob 1 2) ''alice'' (Some '''')
          = Inr [(''merchant_name'', JStr ''alice''),
                 (''balances'', JList (map balance_json
                    [\<lparr>b_merchant_name = ''alice'', b_currency = ''BTC'',
                       b_amount = Decimal 100000000 (- 8)\<rparr>]))]"
      by blast
    then show ?thesis by (simp add: balance_json_def str_one)
  qed
  have 5: "GetBalanceUseCase_execute (alice_bob 1 2) ''alice'' (Some '''')
           = GetBalanceUseCase_execute (alice_bob 1 2) ''alice'' None"
    using alice by blast
  show ?thesis using 1 2 3 4 5 by (simp only: simp_thms)
qed

text \<open>
  With the empty string as currency the use case takes the branch of the absent
  currency: for the existing merchant alice, who has no row for the empty currency, it
  returns the list of all her balances, not an amount of zero.
\<close>

theorem get_balance_counterexample:
  "map_of (merchants (alice_bob 1 2)) ''alice'' = Some 1
   \<and> map_of (balances (alice_bob 1 2)) (''alice'', '''') = None
   \<and> GetBalanceUseCase_execute (alice_bob 1 2) ''alice'' (Some '''')
      = Inr [(''merchant_name'', JStr ''alice''),
             (''balances'', JList [JObject [(''currency'', JStr ''BTC''),
                                            (''amount'', JStr ''1.00000000'')]])]"
  by (simp add: alice_bob_def GetBalanceUseCase_execute_def repo_defs truthy_def
        balance_json_def str_one dec_lt0_def)

lemma str_zero: "str_decimal (Decimal 0 0) = ''0''" "str_decimal (Decimal 0 (- 8)) = ''0E-8''"
  by (simp_all add: dec_eval)

lemma create_merchant_shape:
  assumes "CreateMerchantUseCase_execute s nm cur initial_balance now = (Inr m, s')"
      and "coefficient initial_balance = 0"
  shows "m = \<lparr>m_name = nm, m_created_at = now\<rparr> \<and> nm \<noteq> [] \<and> map_of (merchants s) nm = None
         \<and> s' = s\<lparr>merchants := merchants s @ [(nm, now)]\<rparr>"
  using assms
  by (auto simp: CreateMerchantUseCase_execute_def repo_defs dec_lt0_def dec_gt0_def
           split: sum.splits option.splits if_splits)

text \<open>
  C8, as amended. A successful \<^verbatim>\<open>create_merchant\<close> with an initial balance of zero
  (the name was free) creates the merchant row and leaves the balance table as it is.
  A following \<^verbatim>\<open>get_balance\<close> for that merchant and a non-empty currency, for which
  no row exists, reports the amount \<^verbatim>\<open>"0"\<close>, the rendering of the decimal zero.
\<close>

theorem create_merchant_zero_balance:
  assumes "coefficient initial_balance = 0"
      and "CreateMerchantUseCase_execute s nm cur initial_balance now = (Inr m, s')"
  shows "map_of (merchants s) nm = None
       \<and> map_of (merchants s') nm = Some now
       \<and> balances s' = balances s
       \<and> (cur \<noteq> [] \<and> map_of (balances s) (nm, cur) = None \<longrightarrow>
            GetBalanceUseCase_execute s' nm (Some cur)
              = Inr [(''merchant_name'', JStr nm), (''currency'', JStr cur),
                     (''amount'', JStr (str_decimal (Decimal 0 0)))])
       \<and> str_decimal (Decimal 0 0) = ''0'' \<and> dval (Decimal 0 0) = 0"
proof -
  from create_merchant_shape [OF assms(2,1)]
  have m: "nm \<noteq> []" and new: "map_of (merchants s) nm = None"
    and s': "s' = s\<lparr>merchants := merchants s @ [(nm, now)]\<rparr>" by auto
  have look: "map_of (merchants s') nm = Some now"
    using new by (simp add: s' map_add_def)
  have "cur \<noteq> [] \<Longrightarrow> map_of (balances s) (nm, cur) = None \<Longrightarrow>
          GetBalanceUseCase_execute s' nm (Some cur)
              = Inr [(''merchant_name'', JStr nm), (''currency'', JStr cur),
                     (''amount'', JStr ''0'')]"
    using look m by (simp add: GetBalanceUseCase_execute_def MerchantRepository_get_by_name_def
        Merchant_def BalanceRepository_get_def truthy_def s')
  then show ?thesis using new look by (simp add: s' str_zero dval_def)
qed

theorem create_merchant_zero_balance_witness:
  "CreateMerchantUseCase_execute
     \<lparr>merchants = [(''alice'', 1)],
       balances = [((''alice'', ''BTC''), Decimal 100000000 (- 8))],
       transfers = [], transfer_seq = 0, idempotency_keys = []\<rparr> ''bob'' ''BTC'' (Decimal 0 0) 2
     = (Inr \<lparr>m_name = ''bob'', m_created_at = 2\<rparr>, alice_bob 1 2)
   \<and> map_of (merchants (alice_bob 1 2)) ''bob'' = Some 2
   \<and> balances (alice_bob 1 2) = [((''alice'', ''BTC''), Decimal 100000000 (- 8))]
   \<and> GetBalanceUseCase_execute (alice_bob 1 2) ''bob'' (Some ''BTC'')
      = Inr [(''merchant_name'', JStr ''bob''), (''currency'', JStr ''BTC''), (''amount'', JStr ''0'')]"
proof -
  have z: "coefficient (Decimal 0 0) = 0" by simp
  show ?thesis
    using create_merchant_zero_balance [OF z create_bob [of 1 2]]
    by (simp add: create_bob str_zero)
qed

text \<open>
  A call with initial balance zero for a name that is taken raises and creates nothing.
  And the absent row can be told from a stored zero at the query interface: with a
  stored balance \<open>0E-8\<close> for bob, \<^verbatim>\<open>get_balance\<close> reports \<^verbatim>\<open>"0E-8"\<close> where the absent
  row gives \<^verbatim>\<open>"0"\<close>, and the listing without currency shows the row where the absent
  row gives the empty list.
\<close>

theorem create_merchant_zero_balance_counterexample:
  "CreateMerchantUseCase_execute (alice_bob 1 2) ''bob'' ''BTC'' (Decimal 0 0) 3
     = (Inl (ValueError (''Merchant '' @ quoted ''bob'' @ '' already exists'')), alice_bob 1 2)
   \<and> snd (CreateMerchantUseCase_execute
       \<lparr>merchants = [(''alice'', 1)],
         balances = [((''alice'', ''BTC''), Decimal 100000000 (- 8))],
         transfers = [], transfer_seq = 0, idempotency_keys = []\<rparr> ''bob'' ''BTC'' (Decimal 0 0) 2)
     = alice_bob 1 2
   \<and> snd (BalanceRepository_create (alice_bob 1 2)
            \<lparr>b_merchant_name = ''bob'', b_currency = ''BTC'', b_amount = Decimal 0 (- 8)\<rparr>)
     = bob_zero_row 1 2
   \<and> GetBalanceUseCase_execute (alice_bob 1 2) ''bob'' (Some ''BTC'')
      = Inr [(''merchant_name'', JStr ''bob''), (''currency'', JStr ''BTC''), (''amount'', JStr ''0'')]
   \<and> GetBalanceUseCase_execute (bob_zero_row 1 2) ''bob'' (Some ''BTC'')
      = Inr [(''merchant_name'', JStr ''bob''), (''currency'', JStr ''BTC''),
             (''amount'', JStr ''0E-8'')]
   \<and> GetBalanceUseCase_execute (alice_bob 1 2) ''bob'' None
      = Inr [(''merchant_name'', JStr ''bob''), (''balances'', JList [])]
   \<and> GetBalanceUseCase_execute (bob_zero_row 1 2) ''bob'' None
      = Inr [(''merchant_name'', JStr ''bob''),
             (''balances'', JList [JObject [(''currency'', JStr ''BTC''),
                                            (''amount'', JStr ''0E-8'')]])]"
  by (simp add: create_bob)
     (simp add: alice_bob_def bob_zero_row_def CreateMerchantUseCase_execute_def
        GetBalanceUseCase_execute_def repo_eval truthy_def balance_json_def str_zero
        dec_lt0_def dec_gt0_def)

section \<open>The transfer route\<close>

lemma TransferResponse_keys:
  "TransferResponse d = Inr resp \<Longrightarrow>
   map fst resp = [''transfer_id'', ''from_merchant'', ''to_merchant'', ''currency'', ''amount'',
                   ''fee'', ''created_at'', ''is_duplicate'', ''message'']"
  by (auto simp: TransferResponse_def TransferResponse_fields_def split: if_splits)

lemma route_response_keys:
  assumes "execute_transfer fp frm to cur amt header now s = (Inr resp, s')"
  shows "map fst resp = [''transfer_id'', ''from_merchant'', ''to_merchant'', ''currency'',
                         ''amount'', ''fee'', ''created_at'', ''is_duplicate'', ''message'']"
  using assms
  by (auto simp: execute_transfer_def get_db_def execute_transfer_body_def Let_def
           dest: TransferResponse_keys split: if_splits prod.splits sum.splits)

lemma use_case_response_keys:
  assumes "IdempotencyRepository_get s key = None"
      and "ExecuteTransferUseCase_execute fp s frm to cur amt key now = (Inr r, s')"
  shows "map fst r = [''transfer_id'', ''from_merchant'', ''to_merchant'', ''currency'',
                      ''amount'', ''fee'', ''created_at'']"
  using execute_success_shape [OF assms]
  by (auto split: sum.splits)

lemma TransferResponse_of_response_data:
  "TransferResponse
     (AList.update ''message'' (JStr msg)
        (AList.update ''is_duplicate'' (JBool dup)
           [(''transfer_id'', JInt i), (''from_merchant'', JStr frm), (''to_merchant'', JStr to),
            (''currency'', JStr cur), (''amount'', JStr a), (''fee'', JStr f),
            (''created_at'', JIso now)]))
   = Inr [(''transfer_id'', JInt i), (''from_merchant'', JStr frm), (''to_merchant'', JStr to),
          (''currency'', JStr cur), (''amount'', JStr a), (''fee'', JStr f),
          (''created_at'', JIso now), (''is_duplicate'', JBool dup), (''message'', JStr msg)]"
  by (simp add: TransferResponse_def TransferResponse_fields_def
        int_field_def str_field_def bool_field_default_def optional_str_field_def)

lemma route_replay:
  assumes unused: "IdempotencyRepository_get s (strip header) = None"
      and first: "execute_transfer fp frm to cur amt header now s = (Inr resp, s1)"
      and same: "strip header2 = strip header" and given: "header2 \<noteq> []"
  shows "\<exists>resp2. execute_transfer fp2 frm2 to2 cur2 amt2 header2 now2 s1 = (Inr resp2, s1)
           \<and> map_of resp2 ''transfer_id'' = map_of resp ''transfer_id''
           \<and> map_of resp ''transfer_id'' \<noteq> None
           \<and> map_of resp2 ''is_duplicate'' = Some (JBool True)
           \<and> map_of resp ''is_duplicate'' = Some (JBool False)"
proof -
  define key where "key = strip header"
  from first unused obtain result where
    hdr: "header \<noteq> []" "key \<noteq> []"
    and uc: "ExecuteTransferUseCase_execute fp s frm to cur amt key now = (Inr result, s1)"
    and resp: "TransferResponse
                 (AList.update ''message'' (JStr ''Transfer executed successfully'')
                    (AList.update ''is_duplicate'' (JBool False) result)) = Inr resp"
    by (auto simp: execute_transfer_def get_db_def execute_transfer_body_def Let_def key_def
             split: if_splits prod.splits sum.splits)
  from execute_success_shape [OF unused [folded key_def] uc] obtain fee where
    result: "result = [(''transfer_id'', JInt (transfer_seq s + 1)),
                   (''from_merchant'', JStr frm), (''to_merchant'', JStr to),
                   (''currency'', JStr cur), (''amount'', JStr (str_decimal amt)),
                   (''fee'', JStr (str_decimal fee)), (''created_at'', JIso now)]"
    and ik: "idempotency_keys s1 = idempotency_keys s @ [(key, transfer_seq s + 1, result)]"
    by (auto split: sum.splits)
  have none: "map_of (idempotency_keys s) key = None"
    using unused by (auto simp: IdempotencyRepository_get_def key_def split: option.splits)
  have get: "IdempotencyRepository_get s1 key = Some result"
    using map_of_append_None [OF none, of "(transfer_seq s + 1, result)"]
    by (simp add: IdempotencyRepository_get_def ik del: map_of_append)
  have nonempty: "result \<noteq> []" by (simp add: result)
  have resp_eq: "resp = [(''transfer_id'', JInt (transfer_seq s + 1)), (''from_merchant'', JStr frm),
          (''to_merchant'', JStr to),
          (''currency'', JStr cur), (''amount'', JStr (str_decimal amt)),
          (''fee'', JStr (str_decimal fee)), (''created_at'', JIso now),
          (''is_duplicate'', JBool False), (''message'', JStr ''Transfer executed successfully'')]"
    using resp unfolding result TransferResponse_of_response_data by simp
  define msg where "msg = ''This Idempotency-Key '' @ quoted key
                                @ '' was already used. Returning previous transfer result.''"
  have body2: "execute_transfer_body fp2 frm2 to2 cur2 amt2 header2 now2 s1
        = (TransferResponse (AList.update ''message'' (JStr msg)
             (AList.update ''is_duplicate'' (JBool True) result)), s1)"
    using given same hdr get nonempty
    by (simp add: execute_transfer_body_def Let_def key_def msg_def)
  have "execute_transfer fp2 frm2 to2 cur2 amt2 header2 now2 s1
        = (Inr [(''transfer_id'', JInt (transfer_seq s + 1)), (''from_merchant'', JStr frm),
          (''to_merchant'', JStr to),
          (''currency'', JStr cur), (''amount'', JStr (str_decimal amt)),
          (''fee'', JStr (str_decimal fee)), (''created_at'', JIso now),
          (''is_duplicate'', JBool True), (''message'', JStr msg)], s1)"
    unfolding execute_transfer_def get_db_def body2 result TransferResponse_of_response_data
    by simp
  then show ?thesis by (simp add: resp_eq)
qed

lemma strip_k1:
  "strip ''k1'' = ''k1''" "strip ''k1 '' = ''k1''" "strip (CHR 0xA0 # ''k1'') = ''k1''"
  by (simp_all add: strip_def is_space_def)

lemma paid_response_model:
  "TransferResponse (AList.update ''message'' (JStr msg)
      (AList.update ''is_duplicate'' (JBool dup) (paid_response t3)))
   = Inr [(''transfer_id'', JInt 1), (''from_merchant'', JStr ''alice''),
          (''to_merchant'', JStr ''bob''), (''currency'', JStr ''BTC''),
          (''amount'', JStr ''0.00005''), (''fee'', JStr ''5E-8''), (''created_at'', JIso t3),
          (''is_duplicate'', JBool dup), (''message'', JStr msg)]"
  by (simp add: TransferResponse_def TransferResponse_fields_def paid_response_def
        int_field_def str_field_def bool_field_default_def optional_str_field_def)

lemma route_example:
  "execute_transfer (Decimal 1 (- 1)) ''alice'' ''bob'' ''BTC'' (Decimal 5 (- 5)) ''k1'' t3
     (alice_bob t1 t2)
   = (Inr [(''transfer_id'', JInt 1), (''from_merchant'', JStr ''alice''),
          (''to_merchant'', JStr ''bob''), (''currency'', JStr ''BTC''),
          (''amount'', JStr ''0.00005''), (''fee'', JStr ''5E-8''), (''created_at'', JIso t3),
          (''is_duplicate'', JBool False), (''message'', JStr ''Transfer executed successfully'')],
      paid_store t1 t2 t3)"
proof -
  have "IdempotencyRepository_get (alice_bob t1 t2) ''k1'' = None"
    by (simp add: IdempotencyRepository_get_def alice_bob_def)
  then show ?thesis
    by (simp add: execute_transfer_def get_db_def execute_transfer_body_def strip_k1
          transfer_example paid_response_model)
qed

text \<open>
  C6, as amended. Every successful call of the route \<^verbatim>\<open>execute_transfer\<close> returns a
  response with exactly nine fields: \<^verbatim>\<open>transfer_id\<close>, \<^verbatim>\<open>from_merchant\<close>,
  \<^verbatim>\<open>to_merchant\<close>, \<^verbatim>\<open>currency\<close>, \<^verbatim>\<open>amount\<close>, \<^verbatim>\<open>fee\<close>, \<^verbatim>\<open>created_at\<close>,
  \<^verbatim>\<open>is_duplicate\<close> and \<^verbatim>\<open>message\<close>. The result of the use case on a new key has
  exactly the first seven. When a call with an unused key has succeeded, a later call
  whose header strips to the same key succeeds without changing the store, and its
  response has the \<^verbatim>\<open>transfer_id\<close> of the first response and \<^verbatim>\<open>is_duplicate\<close> true,
  where the first response has it false.
\<close>

theorem transfer_response_shape:
  "(execute_transfer fp frm to cur amt header now s = (Inr resp, s1) \<longrightarrow>
      map fst resp = [''transfer_id'', ''from_merchant'', ''to_merchant'', ''currency'',
                      ''amount'', ''fee'', ''created_at'', ''is_duplicate'', ''message''])
   \<and> (IdempotencyRepository_get s key = None
        \<and> ExecuteTransferUseCase_execute fp s frm to cur amt key now = (Inr r, s') \<longrightarrow>
      map fst r = [''transfer_id'', ''from_merchant'', ''to_merchant'', ''currency'',
                   ''amount'', ''fee'', ''created_at''])
   \<and> (IdempotencyRepository_get s (strip header) = None
        \<and> execute_transfer fp frm to cur amt header now s = (Inr resp, s1)
        \<and> strip header2 = strip header \<and> header2 \<noteq> [] \<longrightarrow>
      (\<exists>resp2. execute_transfer fp2 frm2 to2 cur2 amt2 header2 now2 s1 = (Inr resp2, s1)
           \<and> map_of resp2 ''transfer_id'' = map_of resp ''transfer_id''
           \<and> map_of resp ''transfer_id'' \<noteq> None
           \<and> map_of resp2 ''is_duplicate'' = Some (JBool True)
           \<and> map_of resp ''is_duplicate'' = Some (JBool False)))"
  using route_response_keys [of fp frm to cur amt header now s resp s1]
        use_case_response_keys [of s key fp frm to cur amt now r s']
        route_replay [of s header fp frm to cur amt now resp s1 header2 fp2 frm2 to2 cur2 amt2 now2]
  by blast

theorem transfer_response_shape_witness:
  "execute_transfer (Decimal 1 (- 1)) ''alice'' ''bob'' ''BTC'' (Decimal 5 (- 5)) ''k1'' 30
     (alice_bob 10 20)
   = (Inr [(''transfer_id'', JInt 1), (''from_merchant'', JStr ''alice''),
          (''to_merchant'', JStr ''bob''), (''currency'', JStr ''BTC''),
          (''amount'', JStr ''0.00005''), (''fee'', JStr ''5E-8''), (''created_at'', JIso 30),
          (''is_duplicate'', JBool False), (''message'', JStr ''Transfer executed successfully'')],
      paid_store 10 20 30)
   \<and> map fst (paid_response 30)
       = [''transfer_id'', ''from_merchant'', ''to_merchant'', ''currency'', ''amount'', ''fee'',
          ''created_at'']
   \<and> (\<exists>resp2. execute_transfer (Decimal 1 (- 1)) ''bob'' ''alice'' ''EUR'' (Decimal 7 0)
                  ''k1 '' 40 (paid_store 10 20 30) = (Inr resp2, paid_store 10 20 30)
               \<and> map_of resp2 ''transfer_id'' = Some (JInt 1)
               \<and> map_of resp2 ''is_duplicate'' = Some (JBool True))
   \<and> (\<exists>resp2. execute_transfer (Decimal 1 (- 1)) ''alice'' ''bob'' ''BTC'' (Decimal 5 (- 5))
                  (CHR 0xA0 # ''k1'') 40 (paid_store 10 20 30) = (Inr resp2, paid_store 10 20 30)
               \<and> map_of resp2 ''transfer_id'' = Some (JInt 1)
               \<and> map_of resp2 ''is_duplicate'' = Some (JBool True))"
proof -
  have unused: "IdempotencyRepository_get (alice_bob 10 20) ''k1'' = None"
    by (simp add: IdempotencyRepository_get_def alice_bob_def)
  note shape = transfer_response_shape [where s = "alice_bob 10 20" and fp = "Decimal 1 (- 1)"
      and frm = "''alice''" and to = "''bob''" and cur = "''BTC''" and amt = "Decimal 5 (- 5)"
      and header = "''k1''" and now = 30 and ?s1.0 = "paid_store 10 20 30"
      and key = "''k1''" and r = "paid_response 30" and s' = "paid_store 10 20 30"
      and ?fp2.0 = "Decimal 1 (- 1)" and ?now2.0 = 40
      and resp = "[(''transfer_id'', JInt 1), (''from_merchant'', JStr ''alice''),
          (''to_merchant'', JStr ''bob''), (''currency'', JStr ''BTC''),
          (''amount'', JStr ''0.00005''), (''fee'', JStr ''5E-8''), (''created_at'', JIso 30),
          (''is_duplicate'', JBool False), (''message'', JStr ''Transfer executed successfully'')]"]
  show ?thesis
    using shape [where ?header2.0 = "''k1 ''" and ?frm2.0 = "''bob''" and ?to2.0 = "''alice''"
            and ?cur2.0 = "''EUR''" and ?amt2.0 = "Decimal 7 0"]
          shape [where ?header2.0 = "CHR 0xA0 # ''k1''" and ?frm2.0 = "''alice''"
            and ?to2.0 = "''bob''" and ?cur2.0 = "''BTC''" and ?amt2.0 = "Decimal 5 (- 5)"]
          unused
    by (simp add: route_example transfer_example strip_k1)
qed

text \<open>
  The response of the route carries a ninth field, \<^verbatim>\<open>message\<close>; the result of the use
  case carries no \<^verbatim>\<open>is_duplicate\<close>. Neither has exactly the eight fields of the claim.
\<close>

theorem transfer_response_counterexample:
  "fst (execute_transfer (Decimal 1 (- 1)) ''alice'' ''bob'' ''BTC'' (Decimal 5 (- 5)) ''k1'' 30
          (alice_bob 10 20))
   = Inr [(''transfer_id'', JInt 1), (''from_merchant'', JStr ''alice''),
          (''to_merchant'', JStr ''bob''), (''currency'', JStr ''BTC''),
          (''amount'', JStr ''0.00005''), (''fee'', JStr ''5E-8''), (''created_at'', JIso 30),
          (''is_duplicate'', JBool False), (''message'', JStr ''Transfer executed successfully'')]
   \<and> fst (ExecuteTransferUseCase_execute (Decimal 1 (- 1)) (alice_bob 10 20) ''alice'' ''bob''
            ''BTC'' (Decimal 5 (- 5)) ''k1'' 30)
     = Inr [(''transfer_id'', JInt 1), (''from_merchant'', JStr ''alice''),
            (''to_merchant'', JStr ''bob''), (''currency'', JStr ''BTC''),
            (''amount'', JStr ''0.00005''), (''fee'', JStr ''5E-8''), (''created_at'', JIso 30)]"
  by (simp add: route_example transfer_example paid_response_def)

end
